theory Spec2Isabelle
  imports Main
begin

section \<open>Processes: observable effects and termination\<close>

text \<open>
  The helpers of \<^verbatim>\<open>helper_cuda_drvapi.h\<close> and \<^verbatim>\<open>cudaGLHelper.h\<close> print to the
  two standard streams, call into the CUDA driver or runtime, and either return to their
  caller or end the process with \<^verbatim>\<open>exit\<close>. A run of a helper is therefore a pair: the
  list of effects it had, in order, and how it ended.
\<close>

datatype event =
    Stdout string
  | Stderr string
  | GLSetGLDevice int
  | DeviceReset

datatype 'a outcome = Return 'a | Exit int

type_synonym 'a run = "event list \<times> 'a outcome"

definition ret :: "'a \<Rightarrow> 'a run" where
  "ret x = ([], Return x)"

definition emit :: "event \<Rightarrow> unit run" where
  "emit e = ([e], Return ())"

definition exit_with :: "int \<Rightarrow> 'a run" where
  "exit_with c = ([], Exit c)"

text \<open>Sequencing: after \<^verbatim>\<open>exit\<close> nothing else of the program runs.\<close>

fun bind :: "'a run \<Rightarrow> ('a \<Rightarrow> 'b run) \<Rightarrow> 'b run" where
  "bind (t, Exit c) f = (t, Exit c)"
| "bind (t, Return x) f = (t @ fst (f x), snd (f x))"

definition seq :: "unit run \<Rightarrow> 'b run \<Rightarrow> 'b run" where
  "seq m k = bind m (\<lambda>_. k)"

section \<open>Formatted output\<close>

text \<open>
  The conversions of \<^verbatim>\<open>printf\<close> that the helpers use: \<^verbatim>\<open>%d\<close> and \<^verbatim>\<open>%i\<close> (decimal),
  and \<^verbatim>\<open>%04d\<close> (decimal, padded with zeros to four columns, the sign included).
\<close>

fun digits :: "nat \<Rightarrow> string" where
  "digits n =
     (if n < 10 then [''0123456789'' ! n]
      else digits (n div 10) @ [''0123456789'' ! (n mod 10)])"

declare digits.simps [simp del]

definition zero_pad :: "nat \<Rightarrow> string \<Rightarrow> string" where
  "zero_pad w s = replicate (w - length s) (CHR ''0'') @ s"

definition fmt_d :: "int \<Rightarrow> string" where
  "fmt_d i = (if i < 0 then ''-'' @ digits (nat (- i)) else digits (nat i))"

definition fmt_04d :: "int \<Rightarrow> string" where
  "fmt_04d i =
     (if i < 0 then ''-'' @ zero_pad 3 (digits (nat (- i))) else zero_pad 4 (digits (nat i)))"

section \<open>C integers\<close>

text \<open>
  Device indices, counts and attributes are C \<^verbatim>\<open>int\<close>s. The model keeps them as
  integers and writes the 32-bit two's complement wrap-around out where the program
  multiplies them (the only arithmetic of the helpers that leaves the range on the
  values devices report).
\<close>

definition wrap32 :: "int \<Rightarrow> int" where
  "wrap32 x = (x + 2 ^ 31) mod 2 ^ 32 - 2 ^ 31"

section \<open>The driver API and the SDK headers the helpers rely on\<close>

type_synonym CUresult = int
type_synonym CUdevice = int

definition CUDA_SUCCESS :: CUresult where
  "CUDA_SUCCESS = 0"

datatype CUdevice_attribute =
    CU_DEVICE_ATTRIBUTE_MULTIPROCESSOR_COUNT
  | CU_DEVICE_ATTRIBUTE_CLOCK_RATE

text \<open>
  The driver is closed source. Each entry point the helpers call is a field: it gives the
  status the call returns and what is found in its out-parameters after the call.
\<close>

record driver =
  cuInit :: "int \<Rightarrow> CUresult"
  cuDeviceGetCount :: "CUresult \<times> int"
  cuDeviceGet :: "int \<Rightarrow> CUresult \<times> CUdevice"
  cuDeviceGetName :: "CUdevice \<Rightarrow> CUresult \<times> string"
  cuDeviceComputeCapability :: "CUdevice \<Rightarrow> CUresult \<times> int \<times> int"
  cuDeviceGetAttribute :: "CUdevice_attribute \<Rightarrow> CUdevice \<Rightarrow> CUresult \<times> int"

text \<open>
  What the helpers take from headers that are not part of the two files:
  the command-line parser of \<^verbatim>\<open>helper_string.h\<close>, the table of error names of
  \<^verbatim>\<open>drvapi_error_string.h\<close>, the table \<^verbatim>\<open>_ConvertSMVer2Cores\<close> of cores per
  multiprocessor, the expansion of \<^verbatim>\<open>__FILE__\<close>, and the value of
  \<^verbatim>\<open>__LINE__\<close> in a macro invocation that spans several lines, from its first and
  its last line (compilers differ; in an invocation on one line it is that line).
\<close>

record sdk =
  getCmdLineArgumentInt :: "string list \<Rightarrow> string \<Rightarrow> int"
  checkCmdLineFlag :: "string list \<Rightarrow> string \<Rightarrow> bool"
  getCudaDrvErrorString :: "CUresult \<Rightarrow> string"
  ConvertSMVer2Cores :: "int \<Rightarrow> int \<Rightarrow> int"
  FILE_macro :: string
  LINE_macro :: "int \<Rightarrow> int \<Rightarrow> int"

section \<open>helper_cuda_drvapi.h\<close>

subsection \<open>Error translation\<close>

text \<open>
  \<open>inline_checkCudaErrors\<close> is the inline function \<^verbatim>\<open>__checkCudaErrors\<close> of the header
  (a name cannot start with an underscore here).
\<close>

definition checkCudaErrors_text :: "'z sdk_scheme \<Rightarrow> CUresult \<Rightarrow> string \<Rightarrow> int \<Rightarrow> string" where
  \<open>checkCudaErrors_text s err file line =
     ''checkCudaErrors() Driver API error = '' @ fmt_04d err @ '' "''
       @ getCudaDrvErrorString s err @ ''" from file <'' @ file @ ''>, line ''
       @ fmt_d line @ ''.\<newline>''\<close>

definition inline_checkCudaErrors :: "'z sdk_scheme \<Rightarrow> CUresult \<Rightarrow> string \<Rightarrow> int \<Rightarrow> unit run" where
  "inline_checkCudaErrors s err file line =
     (if CUDA_SUCCESS \<noteq> err
      then seq (emit (Stderr (checkCudaErrors_text s err file line))) (exit_with (- 1))
      else ret ())"

text \<open>The macro \<^verbatim>\<open>checkCudaErrors(err)\<close>, at a given line of the header.\<close>

definition checkCudaErrors :: "'z sdk_scheme \<Rightarrow> CUresult \<Rightarrow> int \<Rightarrow> unit run" where
  "checkCudaErrors s err line = inline_checkCudaErrors s err (FILE_macro s) line"

text \<open>
  A checked call \<^verbatim>\<open>checkCudaErrors(f(&out))\<close>: the status goes through the macro, and
  the program goes on with the out-parameter.
\<close>

definition checked :: "'z sdk_scheme \<Rightarrow> CUresult \<times> 'a \<Rightarrow> int \<Rightarrow> 'a run" where
  "checked s call line = seq (checkCudaErrors s (fst call) line) (ret (snd call))"

subsection \<open>Initialisation with the device of the command line\<close>

definition detected_text :: "int \<Rightarrow> string" where
  "detected_text deviceCount =
     ''>> '' @ fmt_d deviceCount @ '' CUDA capable GPU device(s) detected. <<\<newline>''"

definition invalid_device_text :: "string \<Rightarrow> int \<Rightarrow> string" where
  "invalid_device_text fn dev =
     ''>> '' @ fn @ '' (-device='' @ fmt_d dev @ '') is not a valid GPU device. <<\<newline>''"

definition using_text_DRV :: "int \<Rightarrow> string \<Rightarrow> string" where
  "using_text_DRV dev name =
     ''gpuDeviceInitDRV() Using CUDA Device ['' @ fmt_d dev @ '']: '' @ name @ ''\<newline>''"

definition gpuDeviceInitDRV :: "'z sdk_scheme \<Rightarrow> driver \<Rightarrow> string list \<Rightarrow> int run" where
  "gpuDeviceInitDRV s drv ARGV =
     bind (if CUDA_SUCCESS = cuInit drv 0 then checked s (cuDeviceGetCount drv) 53 else ret 0)
       (\<lambda>deviceCount.
     if deviceCount = 0 then
       seq (emit (Stderr ''cudaDeviceInit error: no devices supporting CUDA\<newline>''))
         (exit_with (- 1))
     else
       let dev = getCmdLineArgumentInt s ARGV ''device='';
           dev = (if dev < 0 then 0 else dev)
       in
         if dev > deviceCount - 1 then
           seq (emit (Stderr ''\<newline>''))
          (seq (emit (Stderr (detected_text deviceCount)))
          (seq (emit (Stderr (invalid_device_text ''cudaDeviceInit'' dev)))
          (seq (emit (Stderr ''\<newline>''))
               (ret (- dev)))))
         else
           bind (checked s (cuDeviceGet drv dev) 68) (\<lambda>cuDevice.
           let name = snd (cuDeviceGetName drv cuDevice)
           in seq (if checkCmdLineFlag s ARGV ''quiet'' = False
                   then emit (Stdout (using_text_DRV dev name)) else ret ())
                  (ret dev)))"

subsection \<open>The device with the best estimated performance\<close>

definition MAX_macro :: "int \<Rightarrow> int \<Rightarrow> int" where
  "MAX_macro a b = (if a > b then a else b)"

text \<open>The first loop: the best major SM architecture among the devices.\<close>

function best_SM_arch_loop :: "'z sdk_scheme \<Rightarrow> driver \<Rightarrow> int \<Rightarrow> CUdevice \<Rightarrow> int \<Rightarrow> int run" where
  "best_SM_arch_loop s drv device_count current_device best_SM_arch =
     (if current_device < device_count then
        bind (checked s (cuDeviceComputeCapability drv current_device) 90) (\<lambda>(major, minor).
        best_SM_arch_loop s drv device_count (current_device + 1)
          (if major > 0 \<and> major < 9999 then MAX_macro best_SM_arch major else best_SM_arch))
      else ret best_SM_arch)"
  by pat_completeness auto
termination
  by (relation "measure (\<lambda>(s, drv, device_count, current_device, best_SM_arch).
        nat (device_count - current_device))") auto

declare best_SM_arch_loop.simps [simp del]

definition sm_per_multiproc :: "'z sdk_scheme \<Rightarrow> int \<Rightarrow> int \<Rightarrow> int" where
  "sm_per_multiproc s major minor =
     (if major = 9999 \<and> minor = 9999 then 1 else ConvertSMVer2Cores s major minor)"

text \<open>
  The product is a product of C \<^verbatim>\<open>int\<close>s. A large device overflows it (14
  multiprocessors of 192 cores at 837000 kHz already do); the model takes the wrapped
  value that two's complement hardware gives.
\<close>

definition compute_perf :: "int \<Rightarrow> int \<Rightarrow> int \<Rightarrow> int" where
  "compute_perf multiProcessorCount sm clockRate =
     wrap32 (wrap32 (multiProcessorCount * sm) * clockRate)"

text \<open>
  The second loop: the device of the best performance. With a best architecture above 2
  only the devices of that architecture are searched.
\<close>

function max_perf_loop ::
  "'z sdk_scheme \<Rightarrow> driver \<Rightarrow> int \<Rightarrow> int \<Rightarrow> CUdevice \<Rightarrow> int \<Rightarrow> CUdevice \<Rightarrow> CUdevice run" where
  "max_perf_loop s drv device_count best_SM_arch current_device max_compute_perf max_perf_device =
     (if current_device < device_count then
        bind (checked s (cuDeviceGetAttribute drv CU_DEVICE_ATTRIBUTE_MULTIPROCESSOR_COUNT
                           current_device) (LINE_macro s 100 102)) (\<lambda>multiProcessorCount.
        bind (checked s (cuDeviceGetAttribute drv CU_DEVICE_ATTRIBUTE_CLOCK_RATE
                           current_device) (LINE_macro s 103 105)) (\<lambda>clockRate.
        bind (checked s (cuDeviceComputeCapability drv current_device) 106) (\<lambda>(major, minor).
        let perf = compute_perf multiProcessorCount (sm_per_multiproc s major minor) clockRate
        in
          if perf > max_compute_perf then
            if best_SM_arch > 2 then
              if major = best_SM_arch then
                max_perf_loop s drv device_count best_SM_arch (current_device + 1)
                  perf current_device
              else
                max_perf_loop s drv device_count best_SM_arch (current_device + 1)
                  max_compute_perf max_perf_device
            else
              max_perf_loop s drv device_count best_SM_arch (current_device + 1)
                perf current_device
          else
            max_perf_loop s drv device_count best_SM_arch (current_device + 1)
              max_compute_perf max_perf_device)))
      else ret max_perf_device)"
  by pat_completeness auto
termination
  by (relation "measure (\<lambda>(s, drv, device_count, best_SM_arch, current_device, p, d).
        nat (device_count - current_device))") auto

declare max_perf_loop.simps [simp del]

definition getMaxGflopsDeviceIdDRV :: "'z sdk_scheme \<Rightarrow> driver \<Rightarrow> int run" where
  "getMaxGflopsDeviceIdDRV s drv =
     (let unchecked = cuInit drv 0 in
      bind (checked s (cuDeviceGetCount drv) 86) (\<lambda>device_count.
      bind (best_SM_arch_loop s drv device_count 0 0) (\<lambda>best_SM_arch.
      max_perf_loop s drv device_count best_SM_arch 0 0 0)))"

subsection \<open>Picking the device\<close>

definition using_text_find :: "int \<Rightarrow> string \<Rightarrow> string" where
  "using_text_find devID name =
     ''> Using CUDA Device ['' @ fmt_d devID @ '']: '' @ name @ ''\<newline>''"

text \<open>
  \<^verbatim>\<open>p_devID\<close> is a pointer that may be null: \<open>None\<close> is the null pointer, \<open>Some v\<close> a
  pointer to an \<^verbatim>\<open>int\<close> that holds \<open>v\<close>. The function gives the handle and what the
  pointer points to afterwards.
\<close>

definition findCudaDeviceDRV ::
  "'z sdk_scheme \<Rightarrow> driver \<Rightarrow> string list \<Rightarrow> int option \<Rightarrow> (CUdevice \<times> int option) run" where
  "findCudaDeviceDRV s drv argv p_devID =
     bind (if checkCmdLineFlag s argv ''device'' then
             bind (gpuDeviceInitDRV s drv argv) (\<lambda>devID.
             if devID < 0 then seq (emit (Stdout ''exiting...\<newline>'')) (exit_with 0)
             else ret devID)
           else
             bind (getMaxGflopsDeviceIdDRV s drv) (\<lambda>devID.
             bind (checked s (cuDeviceGet drv devID) 149) (\<lambda>cuDevice.
             let name = snd (cuDeviceGetName drv cuDevice)
             in seq (emit (Stdout (using_text_find devID name))) (ret devID))))
       (\<lambda>devID.
     let cuDevice = snd (cuDeviceGet drv devID)
     in ret (cuDevice, (case p_devID of None \<Rightarrow> None | Some old \<Rightarrow> Some devID)))"

section \<open>cudaGLHelper.h\<close>

type_synonym cudaError = int

definition cudaSuccess :: cudaError where
  "cudaSuccess = 0"

text \<open>The fields of the device properties that the helper reads.\<close>

record cudaDeviceProp =
  name :: string
  major :: int

record runtime =
  cudaGetDeviceCount :: "cudaError \<times> int"
  cudaGetDeviceProperties :: "int \<Rightarrow> cudaError \<times> cudaDeviceProp"
  cudaGLSetGLDevice :: "int \<Rightarrow> cudaError"

text \<open>
  \<^verbatim>\<open>cudaGLHelper.h\<close> includes nothing. Its \<^verbatim>\<open>checkCudaErrors\<close> takes runtime statuses,
  so it is the macro of the runtime helper header, and \<^verbatim>\<open>gpuGetMaxGflopsDeviceId\<close> is
  defined there too. Neither is in the two files: the text the macro prints, the code it
  exits with and the run of \<^verbatim>\<open>gpuGetMaxGflopsDeviceId\<close> are parameters.
\<close>

record gl_sdk = sdk +
  cudaErrorText :: "cudaError \<Rightarrow> int \<Rightarrow> string"
  cudaErrorExit :: int
  gpuGetMaxGflopsDeviceId :: "int run"

text \<open>
  Modelled from the spec: the macro \<^verbatim>\<open>checkCudaErrors\<close> in scope in
  \<^verbatim>\<open>cudaGLHelper.h\<close> is missing. The spec has it "map a native status code to a
  human-readable string and print it with file/line context, then terminate the process
  immediately".
\<close>

definition runtime_checkCudaErrors :: "gl_sdk \<Rightarrow> cudaError \<Rightarrow> int \<Rightarrow> unit run" where
  "runtime_checkCudaErrors s err line =
     (if err \<noteq> cudaSuccess
      then seq (emit (Stderr (cudaErrorText s err line))) (exit_with (cudaErrorExit s))
      else ret ())"

definition runtime_checked :: "gl_sdk \<Rightarrow> cudaError \<times> 'a \<Rightarrow> int \<Rightarrow> 'a run" where
  "runtime_checked s call line = seq (runtime_checkCudaErrors s (fst call) line) (ret (snd call))"

definition using_text_GL :: "int \<Rightarrow> string \<Rightarrow> string" where
  "using_text_GL dev nm = ''Using device '' @ fmt_d dev @ '': '' @ nm @ ''\<newline>''"

definition gpuGLDeviceInit :: "gl_sdk \<Rightarrow> runtime \<Rightarrow> string list \<Rightarrow> int run" where
  "gpuGLDeviceInit s rt ARGV =
     bind (runtime_checked s (cudaGetDeviceCount rt) 21) (\<lambda>deviceCount.
     if deviceCount = 0 then
       seq (emit (Stderr ''CUDA error: no devices supporting CUDA.\<newline>'')) (exit_with (- 1))
     else
       let dev = getCmdLineArgumentInt s ARGV ''device='';
           dev = (if dev < 0 then 0 else dev)
       in
         if dev > deviceCount - 1 then
           seq (emit (Stderr ''\<newline>''))
          (seq (emit (Stderr (detected_text deviceCount)))
          (seq (emit (Stderr (invalid_device_text ''gpuGLDeviceInit'' dev)))
          (seq (emit (Stderr ''\<newline>''))
               (ret (- dev)))))
         else
           bind (runtime_checked s (cudaGetDeviceProperties rt dev) 38) (\<lambda>deviceProp.
           if major deviceProp < 1 then
             seq (emit (Stderr ''Error: device does not support CUDA.\<newline>''))
               (exit_with (- 1))
           else
             seq (if checkCmdLineFlag s ARGV ''quiet'' = False
                  then emit (Stderr (using_text_GL dev (name deviceProp))) else ret ())
            (seq (emit (GLSetGLDevice dev))
            (seq (runtime_checkCudaErrors s (cudaGLSetGLDevice rt dev) 46)
                 (ret dev)))))"

definition findCudaGLDevice :: "gl_sdk \<Rightarrow> runtime \<Rightarrow> string list \<Rightarrow> int run" where
  "findCudaGLDevice s rt argv =
     (if checkCmdLineFlag s argv ''device'' then
        bind (gpuGLDeviceInit s rt argv) (\<lambda>devID.
        if devID < 0 then
          seq (emit (Stdout ''no CUDA capable devices found, exiting...\<newline>''))
         (seq (emit DeviceReset)
              (exit_with 0))
        else ret devID)
      else
        bind (gpuGetMaxGflopsDeviceId s) (\<lambda>devID.
        seq (emit (GLSetGLDevice devID)) (ret devID)))"

section \<open>The vocabulary of the properties\<close>

text \<open>What the initialisation helpers write when no device is found or the index is refused.\<close>

definition no_devices_DRV :: "int run" where
  "no_devices_DRV = ([Stderr ''cudaDeviceInit error: no devices supporting CUDA\<newline>''], Exit (- 1))"

definition rejected :: "string \<Rightarrow> int \<Rightarrow> int \<Rightarrow> event list" where
  "rejected fn deviceCount dev =
     [Stderr ''\<newline>'', Stderr (detected_text deviceCount),
      Stderr (invalid_device_text fn dev), Stderr ''\<newline>'']"

text \<open>
  What the driver reports for one device, the score the second loop of
  \<^verbatim>\<open>getMaxGflopsDeviceIdDRV\<close> gives it, and which devices that loop searches once the
  best architecture is known.
\<close>

definition device_major :: "driver \<Rightarrow> CUdevice \<Rightarrow> int" where
  "device_major drv d = fst (snd (cuDeviceComputeCapability drv d))"

definition device_minor :: "driver \<Rightarrow> CUdevice \<Rightarrow> int" where
  "device_minor drv d = snd (snd (cuDeviceComputeCapability drv d))"

definition device_perf :: "'z sdk_scheme \<Rightarrow> driver \<Rightarrow> CUdevice \<Rightarrow> int" where
  "device_perf s drv d =
     compute_perf (snd (cuDeviceGetAttribute drv CU_DEVICE_ATTRIBUTE_MULTIPROCESSOR_COUNT d))
       (sm_per_multiproc s (device_major drv d) (device_minor drv d))
       (snd (cuDeviceGetAttribute drv CU_DEVICE_ATTRIBUTE_CLOCK_RATE d))"

definition searched :: "int \<Rightarrow> int \<Rightarrow> bool" where
  "searched best_SM_arch mj = (if best_SM_arch > 2 then mj = best_SM_arch else True)"

definition queries_ok :: "driver \<Rightarrow> CUdevice \<Rightarrow> bool" where
  "queries_ok drv d \<longleftrightarrow>
     fst (cuDeviceComputeCapability drv d) = CUDA_SUCCESS
     \<and> fst (cuDeviceGetAttribute drv CU_DEVICE_ATTRIBUTE_MULTIPROCESSOR_COUNT d) = CUDA_SUCCESS
     \<and> fst (cuDeviceGetAttribute drv CU_DEVICE_ATTRIBUTE_CLOCK_RATE d) = CUDA_SUCCESS"

text \<open>
  The state of the search after the devices from \<open>lo\<close> up to \<open>hi\<close>: either none of the
  searched devices beats the score \<open>mp\<close>, or \<open>r\<close> is the first of them with the best
  score.
\<close>

definition best_so_far ::
  "'z sdk_scheme \<Rightarrow> driver \<Rightarrow> int \<Rightarrow> int \<Rightarrow> int \<Rightarrow> int \<Rightarrow> int \<Rightarrow> bool" where
  "best_so_far s drv b lo hi mp r \<longleftrightarrow>
     lo \<le> r \<and> r < hi \<and> searched b (device_major drv r) \<and> mp < device_perf s drv r
     \<and> (\<forall>d. lo \<le> d \<and> d < hi \<and> searched b (device_major drv d)
           \<longrightarrow> device_perf s drv d \<le> device_perf s drv r)
     \<and> (\<forall>d. lo \<le> d \<and> d < r \<and> searched b (device_major drv d)
           \<longrightarrow> device_perf s drv d < device_perf s drv r)"

definition none_better ::
  "'z sdk_scheme \<Rightarrow> driver \<Rightarrow> int \<Rightarrow> int \<Rightarrow> int \<Rightarrow> int \<Rightarrow> bool" where
  "none_better s drv b lo hi mp \<longleftrightarrow>
     (\<forall>d. lo \<le> d \<and> d < hi \<and> searched b (device_major drv d) \<longrightarrow> device_perf s drv d \<le> mp)"

text \<open>
  What the first loop computes from the devices from \<open>lo\<close> up to \<open>hi\<close> and the value
  \<open>b0\<close> it starts with: the greatest major version among those above 0 and below 9999,
  or \<open>b0\<close> if that is greater.
\<close>

definition is_best_SM_arch :: "driver \<Rightarrow> int \<Rightarrow> int \<Rightarrow> int \<Rightarrow> int \<Rightarrow> bool" where
  "is_best_SM_arch drv lo hi b0 b \<longleftrightarrow>
     b0 \<le> b
     \<and> (b = b0 \<or> (\<exists>d. lo \<le> d \<and> d < hi \<and> device_major drv d = b \<and> 0 < b \<and> b < 9999))
     \<and> (\<forall>d. lo \<le> d \<and> d < hi \<and> 0 < device_major drv d \<and> device_major drv d < 9999
           \<longrightarrow> device_major drv d \<le> b)"

text \<open>
  A run that has either returned without any output, or has ended the process with exit
  code -1 after one line on the standard error stream.
\<close>

definition returns_or_aborts :: "'a run \<Rightarrow> bool" where
  "returns_or_aborts run \<longleftrightarrow>
     (\<exists>r. run = ([], Return r)) \<or> (\<exists>m. run = ([Stderr m], Exit (- 1)))"

text \<open>The same for \<^verbatim>\<open>gpuGLDeviceInit\<close>, and the end that the runtime's macro gives a run.\<close>

definition no_devices_GL :: "int run" where
  "no_devices_GL = ([Stderr ''CUDA error: no devices supporting CUDA.\<newline>''], Exit (- 1))"

definition runtime_abort :: "gl_sdk \<Rightarrow> cudaError \<Rightarrow> int \<Rightarrow> event list \<Rightarrow> int run" where
  "runtime_abort s err line before =
     (before @ [Stderr (cudaErrorText s err line)], Exit (cudaErrorExit s))"




section \<open>A machine to run the helpers on\<close>

text \<open>
  Concrete parameters for running the model: a command line on which the parser found
  the value \<open>dev\<close> for \<^verbatim>\<open>device=\<close> and the flags \<open>flags\<close>, the table of cores per
  multiprocessor of the SDK, and a driver and a runtime over a list of devices, each
  with its name, compute capability, multiprocessor count and clock rate in kHz.
\<close>

definition sample_sdk :: "int \<Rightarrow> string list \<Rightarrow> sdk" where
  "sample_sdk dev flags =
     \<lparr> getCmdLineArgumentInt = (\<lambda>argv a. dev),
       checkCmdLineFlag = (\<lambda>argv f. f \<in> set flags),
       getCudaDrvErrorString = (\<lambda>e. if e = 101 then ''CUDA_ERROR_INVALID_DEVICE'' else ''UNKNOWN''),
       ConvertSMVer2Cores = (\<lambda>mj mn.
          if mj = 1 then 8 else if mj = 2 then (if mn = 0 then 32 else 48)
          else if mj = 3 then 192 else - 1),
       FILE_macro = ''helper_cuda_drvapi.h'',
       LINE_macro = (\<lambda>first last. last) \<rparr>"

definition sample_gl_sdk :: "int \<Rightarrow> string list \<Rightarrow> gl_sdk" where
  "sample_gl_sdk dev flags =
     \<lparr> getCmdLineArgumentInt = (\<lambda>argv a. dev),
       checkCmdLineFlag = (\<lambda>argv f. f \<in> set flags),
       getCudaDrvErrorString = (\<lambda>e. ''UNKNOWN''),
       ConvertSMVer2Cores = (\<lambda>mj mn. - 1),
       FILE_macro = ''cudaGLHelper.h'',
       LINE_macro = (\<lambda>first last. last),
       cudaErrorText = (\<lambda>e l. ''CUDA error at cudaGLHelper.h\<newline>''),
       cudaErrorExit = 1,
       gpuGetMaxGflopsDeviceId = ([], Return 0) \<rparr>"

type_synonym device_info = "string \<times> int \<times> int \<times> int \<times> int"

definition sample_driver :: "device_info list \<Rightarrow> driver" where
  "sample_driver ds =
     \<lparr> cuInit = (\<lambda>flags. 0),
       cuDeviceGetCount = (0, int (length ds)),
       cuDeviceGet = (\<lambda>i. if 0 \<le> i \<and> i < int (length ds) then (0, i) else (101, 0)),
       cuDeviceGetName = (\<lambda>d. if 0 \<le> d \<and> d < int (length ds)
          then (0, fst (ds ! nat d)) else (101, [])),
       cuDeviceComputeCapability = (\<lambda>d. if 0 \<le> d \<and> d < int (length ds)
          then (0, fst (snd (ds ! nat d)), fst (snd (snd (ds ! nat d)))) else (101, 0, 0)),
       cuDeviceGetAttribute = (\<lambda>a d. if 0 \<le> d \<and> d < int (length ds)
          then (0, case a of
                  CU_DEVICE_ATTRIBUTE_MULTIPROCESSOR_COUNT \<Rightarrow> fst (snd (snd (snd (ds ! nat d))))
                | CU_DEVICE_ATTRIBUTE_CLOCK_RATE \<Rightarrow> snd (snd (snd (snd (ds ! nat d)))))
          else (101, 0)) \<rparr>"

definition sample_runtime :: "device_info list \<Rightarrow> runtime" where
  "sample_runtime ds =
     \<lparr> cudaGetDeviceCount = (0, int (length ds)),
       cudaGetDeviceProperties = (\<lambda>d. if 0 \<le> d \<and> d < int (length ds)
          then (0, \<lparr> name = fst (ds ! nat d), major = fst (snd (ds ! nat d)) \<rparr>)
          else (10, \<lparr> name = [], major = 0 \<rparr>)),
       cudaGLSetGLDevice = (\<lambda>d. if 0 \<le> d \<and> d < int (length ds) then 0 else 10) \<rparr>"

section \<open>Properties\<close>

lemma bind_ret [simp]: "bind (ret x) f = f x"
  by (simp add: ret_def)

lemma seq_emit [simp]: "seq (emit e) k = (e # fst k, snd k)"
  by (simp add: seq_def emit_def)

lemma bind_exit_with [simp]: "bind (exit_with c) f = exit_with c"
  by (simp add: exit_with_def)

lemma checkCudaErrors_ok [simp]:
  "checkCudaErrors s CUDA_SUCCESS line = ret ()"
  by (simp add: checkCudaErrors_def inline_checkCudaErrors_def)

lemma checkCudaErrors_fail:
  "err \<noteq> CUDA_SUCCESS \<Longrightarrow>
   checkCudaErrors s err line =
     ([Stderr (checkCudaErrors_text s err (FILE_macro s) line)], Exit (- 1))"
  by (simp add: checkCudaErrors_def inline_checkCudaErrors_def exit_with_def)

subsection \<open>Checked calls\<close>

lemma checked_ok: "fst call = CUDA_SUCCESS \<Longrightarrow> checked s call line = ret (snd call)"
  by (simp add: checked_def seq_def)

lemma checked_fail:
  "fst call \<noteq> CUDA_SUCCESS \<Longrightarrow>
   checked s call line =
     ([Stderr (checkCudaErrors_text s (fst call) (FILE_macro s) line)], Exit (- 1))"
  by (simp add: checked_def seq_def checkCudaErrors_fail)

subsection \<open>The initialisation helper, case by case\<close>

lemma gpuDeviceInitDRV_flat:
  "gpuDeviceInitDRV s drv ARGV =
     (if cuInit drv 0 \<noteq> CUDA_SUCCESS then no_devices_DRV
      else if fst (cuDeviceGetCount drv) \<noteq> CUDA_SUCCESS then
        ([Stderr (checkCudaErrors_text s (fst (cuDeviceGetCount drv)) (FILE_macro s) 53)], Exit (- 1))
      else if snd (cuDeviceGetCount drv) = 0 then no_devices_DRV
      else if max 0 (getCmdLineArgumentInt s ARGV ''device='') > snd (cuDeviceGetCount drv) - 1 then
        (rejected ''cudaDeviceInit'' (snd (cuDeviceGetCount drv))
           (max 0 (getCmdLineArgumentInt s ARGV ''device='')),
         Return (- max 0 (getCmdLineArgumentInt s ARGV ''device='')))
      else if fst (cuDeviceGet drv (max 0 (getCmdLineArgumentInt s ARGV ''device=''))) \<noteq> CUDA_SUCCESS then
        ([Stderr (checkCudaErrors_text s
            (fst (cuDeviceGet drv (max 0 (getCmdLineArgumentInt s ARGV ''device='')))) (FILE_macro s) 68)],
         Exit (- 1))
      else
        (if checkCmdLineFlag s ARGV ''quiet'' then []
         else [Stdout (using_text_DRV (max 0 (getCmdLineArgumentInt s ARGV ''device=''))
                 (snd (cuDeviceGetName drv
                    (snd (cuDeviceGet drv (max 0 (getCmdLineArgumentInt s ARGV ''device='')))))))],
         Return (max 0 (getCmdLineArgumentInt s ARGV ''device=''))))"
  by (simp add: gpuDeviceInitDRV_def checked_ok checked_fail no_devices_DRV_def rejected_def
      Let_def max_def ret_def exit_with_def seq_def emit_def)

subsection \<open>The two loops\<close>

lemma best_SM_arch_loop_done:
  "\<not> cur < n \<Longrightarrow> best_SM_arch_loop s drv n cur b = ret b"
  by (subst best_SM_arch_loop.simps) simp

lemma best_SM_arch_loop_step:
  "cur < n \<Longrightarrow> fst (cuDeviceComputeCapability drv cur) = CUDA_SUCCESS \<Longrightarrow>
   best_SM_arch_loop s drv n cur b =
     best_SM_arch_loop s drv n (cur + 1)
       (if device_major drv cur > 0 \<and> device_major drv cur < 9999
        then MAX_macro b (device_major drv cur) else b)"
  by (subst best_SM_arch_loop.simps)
     (simp add: checked_ok device_major_def split: prod.splits)

lemma best_SM_arch_loop_fail:
  "cur < n \<Longrightarrow> fst (cuDeviceComputeCapability drv cur) \<noteq> CUDA_SUCCESS \<Longrightarrow>
   best_SM_arch_loop s drv n cur b =
     ([Stderr (checkCudaErrors_text s (fst (cuDeviceComputeCapability drv cur)) (FILE_macro s) 90)],
      Exit (- 1))"
  by (subst best_SM_arch_loop.simps) (simp add: checked_fail)

lemma max_perf_loop_done:
  "\<not> cur < n \<Longrightarrow> max_perf_loop s drv n b cur mp md = ret md"
  by (subst max_perf_loop.simps) simp

lemma max_perf_loop_step:
  "cur < n \<Longrightarrow> queries_ok drv cur \<Longrightarrow>
   max_perf_loop s drv n b cur mp md =
     (if device_perf s drv cur > mp \<and> searched b (device_major drv cur)
      then max_perf_loop s drv n b (cur + 1) (device_perf s drv cur) cur
      else max_perf_loop s drv n b (cur + 1) mp md)"
  by (subst max_perf_loop.simps)
     (simp add: checked_ok queries_ok_def device_perf_def device_major_def device_minor_def
        searched_def Let_def split: prod.splits)

lemma max_perf_loop_fail:
  "cur < n \<Longrightarrow> \<not> queries_ok drv cur \<Longrightarrow>
   \<exists>m. max_perf_loop s drv n b cur mp md = ([Stderr m], Exit (- 1))"
  apply (subst max_perf_loop.simps)
  apply (cases "fst (cuDeviceGetAttribute drv CU_DEVICE_ATTRIBUTE_MULTIPROCESSOR_COUNT cur) = CUDA_SUCCESS")
   apply (cases "fst (cuDeviceGetAttribute drv CU_DEVICE_ATTRIBUTE_CLOCK_RATE cur) = CUDA_SUCCESS")
    apply (simp_all add: checked_ok checked_fail queries_ok_def)
  done

lemma none_better_extend:
  assumes "none_better s drv b (cur + 1) n mp"
    and "\<not> (mp < device_perf s drv cur \<and> searched b (device_major drv cur))"
  shows "none_better s drv b cur n mp"
  unfolding none_better_def
proof (intro allI impI)
  fix d assume d: "cur \<le> d \<and> d < n \<and> searched b (device_major drv d)"
  show "device_perf s drv d \<le> mp"
  proof (cases "d = cur")
    case True
    with d assms(2) show ?thesis by auto
  next
    case False
    with d have "cur + 1 \<le> d" by linarith
    with d assms(1) show ?thesis by (simp add: none_better_def)
  qed
qed

lemma best_so_far_extend_skip:
  assumes "best_so_far s drv b (cur + 1) n mp r"
    and "\<not> (mp < device_perf s drv cur \<and> searched b (device_major drv cur))"
  shows "best_so_far s drv b cur n mp r"
proof -
  from assms(1) have r: "cur + 1 \<le> r" "r < n" "searched b (device_major drv r)"
      "mp < device_perf s drv r"
    and le: "\<And>d. cur + 1 \<le> d \<Longrightarrow> d < n \<Longrightarrow> searched b (device_major drv d)
               \<Longrightarrow> device_perf s drv d \<le> device_perf s drv r"
    and lt: "\<And>d. cur + 1 \<le> d \<Longrightarrow> d < r \<Longrightarrow> searched b (device_major drv d)
               \<Longrightarrow> device_perf s drv d < device_perf s drv r"
    by (simp_all add: best_so_far_def)
  have cur: "searched b (device_major drv cur) \<Longrightarrow> device_perf s drv cur < device_perf s drv r"
    using assms(2) r(4) by linarith
  have "\<And>d. cur \<le> d \<Longrightarrow> d < n \<Longrightarrow> searched b (device_major drv d)
               \<Longrightarrow> device_perf s drv d \<le> device_perf s drv r"
  proof -
    fix d assume d: "cur \<le> d" "d < n" "searched b (device_major drv d)"
    show "device_perf s drv d \<le> device_perf s drv r"
    proof (cases "d = cur")
      case True with cur d show ?thesis by simp
    next
      case False with d have "cur + 1 \<le> d" by linarith
      with d le show ?thesis by simp
    qed
  qed
  moreover have "\<And>d. cur \<le> d \<Longrightarrow> d < r \<Longrightarrow> searched b (device_major drv d)
               \<Longrightarrow> device_perf s drv d < device_perf s drv r"
  proof -
    fix d assume d: "cur \<le> d" "d < r" "searched b (device_major drv d)"
    show "device_perf s drv d < device_perf s drv r"
    proof (cases "d = cur")
      case True with cur d show ?thesis by simp
    next
      case False with d have "cur + 1 \<le> d" by linarith
      with d lt show ?thesis by simp
    qed
  qed
  moreover have "cur \<le> r" using r(1) by linarith
  ultimately show ?thesis
    using r by (simp add: best_so_far_def)
qed

lemma best_so_far_extend_take:
  assumes "best_so_far s drv b (cur + 1) n (device_perf s drv cur) r"
    and "mp < device_perf s drv cur"
  shows "best_so_far s drv b cur n mp r"
proof -
  have "best_so_far s drv b cur n (device_perf s drv cur) r"
    by (rule best_so_far_extend_skip [OF assms(1)]) simp
  with assms(2) show ?thesis
    by (simp add: best_so_far_def)
qed

lemma best_so_far_first:
  assumes "none_better s drv b (cur + 1) n (device_perf s drv cur)"
    and "mp < device_perf s drv cur" and "searched b (device_major drv cur)" and "cur < n"
  shows "best_so_far s drv b cur n mp cur"
proof -
  have "\<And>d. cur \<le> d \<Longrightarrow> d < n \<Longrightarrow> searched b (device_major drv d)
               \<Longrightarrow> device_perf s drv d \<le> device_perf s drv cur"
  proof -
    fix d assume d: "cur \<le> d" "d < n" "searched b (device_major drv d)"
    show "device_perf s drv d \<le> device_perf s drv cur"
    proof (cases "d = cur")
      case True then show ?thesis by simp
    next
      case False with d have "cur + 1 \<le> d" by linarith
      with d assms(1) show ?thesis by (simp add: none_better_def)
    qed
  qed
  with assms(2-4) show ?thesis
    by (simp add: best_so_far_def)
qed

lemma max_perf_loop_spec:
  assumes "\<forall>d. cur \<le> d \<and> d < n \<longrightarrow> queries_ok drv d"
  shows "\<exists>r. max_perf_loop s drv n b cur mp md = ([], Return r)
     \<and> ((r = md \<and> none_better s drv b cur n mp) \<or> best_so_far s drv b cur n mp r)"
  using assms
proof (induction "nat (n - cur)" arbitrary: cur mp md)
  case 0
  then show ?case by (simp add: max_perf_loop_done ret_def none_better_def)
next
  case (Suc k)
  then have lt: "cur < n" and ok: "queries_ok drv cur"
    by auto
  have k: "k = nat (n - (cur + 1))" using Suc.hyps(2) by linarith
  have rest: "\<forall>d. cur + 1 \<le> d \<and> d < n \<longrightarrow> queries_ok drv d"
    using Suc.prems by auto
  show ?case
  proof (cases "mp < device_perf s drv cur \<and> searched b (device_major drv cur)")
    case True
    from Suc.hyps(1) [OF k rest, of "device_perf s drv cur" cur]
    obtain r where r: "max_perf_loop s drv n b (cur + 1) (device_perf s drv cur) cur = ([], Return r)"
      and alt: "(r = cur \<and> none_better s drv b (cur + 1) n (device_perf s drv cur))
        \<or> best_so_far s drv b (cur + 1) n (device_perf s drv cur) r"
      by blast
    have eq: "max_perf_loop s drv n b cur mp md = ([], Return r)"
      using True r by (simp add: max_perf_loop_step [OF lt ok])
    from alt have "best_so_far s drv b cur n mp r"
    proof
      assume "r = cur \<and> none_better s drv b (cur + 1) n (device_perf s drv cur)"
      with True lt show ?thesis by (simp add: best_so_far_first)
    next
      assume "best_so_far s drv b (cur + 1) n (device_perf s drv cur) r"
      with True show ?thesis by (simp add: best_so_far_extend_take)
    qed
    with eq show ?thesis by blast
  next
    case False
    from Suc.hyps(1) [OF k rest, of mp md]
    obtain r where r: "max_perf_loop s drv n b (cur + 1) mp md = ([], Return r)"
      and alt: "(r = md \<and> none_better s drv b (cur + 1) n mp)
        \<or> best_so_far s drv b (cur + 1) n mp r"
      by blast
    have eq: "max_perf_loop s drv n b cur mp md = ([], Return r)"
      using False r by (auto simp: max_perf_loop_step [OF lt ok])
    from alt False have "(r = md \<and> none_better s drv b cur n mp) \<or> best_so_far s drv b cur n mp r"
      using none_better_extend [OF _ False] best_so_far_extend_skip [OF _ False] by blast
    with eq show ?thesis by blast
  qed
qed

subsection \<open>Error translation\<close>

text \<open>
  Claim C2. For every status \<open>err\<close>, \<^verbatim>\<open>__checkCudaErrors(err, file, line)\<close> ends the
  process exactly when \<open>err\<close> is not \<^verbatim>\<open>CUDA_SUCCESS\<close>. It then has written one line to
  the standard error stream, which holds the error string of \<open>err\<close>, the file and the
  line, in this order, and the argument of \<^verbatim>\<open>exit\<close> is \<open>-1\<close>. On \<^verbatim>\<open>CUDA_SUCCESS\<close> it
  returns with no effect at all.
\<close>

theorem checkCudaErrors_exits_iff_error:
  "((\<exists>c. snd (inline_checkCudaErrors s err file line) = Exit c) \<longleftrightarrow> err \<noteq> CUDA_SUCCESS)
   \<and> (err \<noteq> CUDA_SUCCESS \<longrightarrow>
        snd (inline_checkCudaErrors s err file line) = Exit (- 1)
        \<and> (\<exists>a b c d. fst (inline_checkCudaErrors s err file line) =
              [Stderr (a @ getCudaDrvErrorString s err @ b @ file @ c @ fmt_d line @ d)]))
   \<and> (err = CUDA_SUCCESS \<longrightarrow> inline_checkCudaErrors s err file line = ([], Return ()))"
proof -
  have shape: "\<exists>a b c d. checkCudaErrors_text s err file line =
      a @ getCudaDrvErrorString s err @ b @ file @ c @ fmt_d line @ d"
    unfolding checkCudaErrors_text_def append_assoc [symmetric]
    by (intro exI) (rule refl)
  show ?thesis
  proof (cases "err = CUDA_SUCCESS")
    case True
    then show ?thesis
      by (simp add: inline_checkCudaErrors_def ret_def)
  next
    case False
    with shape show ?thesis
      by (simp add: inline_checkCudaErrors_def exit_with_def)
  qed
qed

theorem checkCudaErrors_exits_iff_error_witness:
  "(101::int) \<noteq> CUDA_SUCCESS
   \<and> snd (inline_checkCudaErrors (sample_sdk 0 []) 101 ''helper_cuda_drvapi.h'' 53) = Exit (- 1)
   \<and> fst (inline_checkCudaErrors (sample_sdk 0 []) 101 ''helper_cuda_drvapi.h'' 53) =
       [Stderr (checkCudaErrors_text (sample_sdk 0 []) 101 ''helper_cuda_drvapi.h'' 53)]"
proof -
  have h: "(101::int) \<noteq> CUDA_SUCCESS"
    by (simp add: CUDA_SUCCESS_def)
  from checkCudaErrors_exits_iff_error [of "sample_sdk 0 []" 101 "''helper_cuda_drvapi.h''" 53] h
  show ?thesis
    by (simp add: inline_checkCudaErrors_def exit_with_def)
qed

lemma is_best_SM_arch_extend:
  assumes "is_best_SM_arch drv (cur + 1) n
             (if device_major drv cur > 0 \<and> device_major drv cur < 9999
              then MAX_macro b0 (device_major drv cur) else b0) b"
    and "cur < n"
  shows "is_best_SM_arch drv cur n b0 b"
proof -
  let ?m = "device_major drv cur"
  let ?b1 = "if ?m > 0 \<and> ?m < 9999 then MAX_macro b0 ?m else b0"
  from assms(1) have le: "?b1 \<le> b"
    and src: "b = ?b1 \<or> (\<exists>d. cur + 1 \<le> d \<and> d < n \<and> device_major drv d = b \<and> 0 < b \<and> b < 9999)"
    and ub: "\<And>d. cur + 1 \<le> d \<Longrightarrow> d < n \<Longrightarrow> 0 < device_major drv d
               \<Longrightarrow> device_major drv d < 9999 \<Longrightarrow> device_major drv d \<le> b"
    by (simp_all add: is_best_SM_arch_def)
  have b0: "b0 \<le> ?b1" and m: "0 < ?m \<Longrightarrow> ?m < 9999 \<Longrightarrow> ?m \<le> ?b1"
    by (simp_all add: MAX_macro_def)
  have c1: "b0 \<le> b" using le b0 by linarith
  have c2: "b = b0 \<or> (\<exists>d. cur \<le> d \<and> d < n \<and> device_major drv d = b \<and> 0 < b \<and> b < 9999)"
    using src
  proof
    assume eq: "b = ?b1"
    show ?thesis
    proof (cases "b = b0")
      case True then show ?thesis by simp
    next
      case False
      with eq have "?m > 0 \<and> ?m < 9999 \<and> b = ?m"
        by (auto simp: MAX_macro_def split: if_splits)
      with assms(2) show ?thesis by auto
    qed
  next
    assume "\<exists>d. cur + 1 \<le> d \<and> d < n \<and> device_major drv d = b \<and> 0 < b \<and> b < 9999"
    then obtain d where "cur + 1 \<le> d" "d < n" "device_major drv d = b" "0 < b" "b < 9999"
      by blast
    then have "cur \<le> d \<and> d < n \<and> device_major drv d = b \<and> 0 < b \<and> b < 9999"
      by simp
    then show ?thesis by blast
  qed
  have c3: "\<And>d. cur \<le> d \<Longrightarrow> d < n \<Longrightarrow> 0 < device_major drv d
               \<Longrightarrow> device_major drv d < 9999 \<Longrightarrow> device_major drv d \<le> b"
  proof -
    fix d assume d: "cur \<le> d" "d < n" "0 < device_major drv d" "device_major drv d < 9999"
    show "device_major drv d \<le> b"
    proof (cases "d = cur")
      case True
      with d m le show ?thesis by simp
    next
      case False
      with d have "cur + 1 \<le> d" by linarith
      with d ub show ?thesis by simp
    qed
  qed
  from c1 c2 c3 show ?thesis
    by (simp add: is_best_SM_arch_def)
qed

lemma best_SM_arch_loop_spec:
  assumes "\<forall>d. cur \<le> d \<and> d < n \<longrightarrow> queries_ok drv d"
  shows "\<exists>b. best_SM_arch_loop s drv n cur b0 = ([], Return b) \<and> is_best_SM_arch drv cur n b0 b"
  using assms
proof (induction "nat (n - cur)" arbitrary: cur b0)
  case 0
  then show ?case by (simp add: best_SM_arch_loop_done ret_def is_best_SM_arch_def)
next
  case (Suc k)
  then have lt: "cur < n" and ok: "fst (cuDeviceComputeCapability drv cur) = CUDA_SUCCESS"
    by (auto simp: queries_ok_def)
  have k: "k = nat (n - (cur + 1))" using Suc.hyps(2) by linarith
  have rest: "\<forall>d. cur + 1 \<le> d \<and> d < n \<longrightarrow> queries_ok drv d"
    using Suc.prems by auto
  let ?b1 = "if device_major drv cur > 0 \<and> device_major drv cur < 9999
             then MAX_macro b0 (device_major drv cur) else b0"
  from Suc.hyps(1) [OF k rest, of ?b1]
  obtain b where b: "best_SM_arch_loop s drv n (cur + 1) ?b1 = ([], Return b)"
    and best: "is_best_SM_arch drv (cur + 1) n ?b1 b"
    by blast
  from b have "best_SM_arch_loop s drv n cur b0 = ([], Return b)"
    by (simp add: best_SM_arch_loop_step [OF lt ok])
  with is_best_SM_arch_extend [OF best lt] show ?case by blast
qed

lemma getMaxGflopsDeviceIdDRV_spec:
  assumes count: "cuDeviceGetCount drv = (CUDA_SUCCESS, n)"
    and ok: "\<forall>d. 0 \<le> d \<and> d < n \<longrightarrow> queries_ok drv d"
  shows "\<exists>r b. getMaxGflopsDeviceIdDRV s drv = ([], Return r)
     \<and> is_best_SM_arch drv 0 n 0 b
     \<and> ((r = 0 \<and> none_better s drv b 0 n 0) \<or> best_so_far s drv b 0 n 0 r)"
proof -
  from best_SM_arch_loop_spec [OF ok, of s 0]
  obtain b where b: "best_SM_arch_loop s drv n 0 0 = ([], Return b)"
    and best: "is_best_SM_arch drv 0 n 0 b"
    by blast
  from max_perf_loop_spec [OF ok, of s b 0 0]
  obtain r where r: "max_perf_loop s drv n b 0 0 0 = ([], Return r)"
    and alt: "(r = 0 \<and> none_better s drv b 0 n 0) \<or> best_so_far s drv b 0 n 0 r"
    by blast
  have "getMaxGflopsDeviceIdDRV s drv = ([], Return r)"
    using count b r by (simp add: getMaxGflopsDeviceIdDRV_def checked_ok ret_def)
  with best alt show ?thesis by blast
qed

subsection \<open>Overflow of the score\<close>

text \<open>
  Claim C1 has \<^verbatim>\<open>getMaxGflopsDeviceIdDRV\<close> return the device of the greatest score, core
  count times clock rate. The code computes the score as a product of three C
  \<^verbatim>\<open>int\<close>s, and the product overflows on a large device. On a machine with a GT 640 (2 multiprocessors of 192 cores at 900000 kHz) as
  device 0 and a GTX TITAN (14 multiprocessors of 192 cores at 837000 kHz) as device 1,
  both of architecture 3, the product of the second device is 2249856000, above the
  greatest \<^verbatim>\<open>int\<close>; the wrapped score is negative, the device is never taken, and the
  function returns device 0, whose score is the smaller one.
\<close>

theorem getMaxGflopsDeviceIdDRV_overflow_picks_smaller:
  "getMaxGflopsDeviceIdDRV (sample_sdk 0 [])
     (sample_driver [(''GT 640'', 3, 0, 2, 900000), (''GTX TITAN'', 3, 5, 14, 837000)])
     = ([], Return 0)
   \<and> device_major (sample_driver [(''GT 640'', 3, 0, 2, 900000), (''GTX TITAN'', 3, 5, 14, 837000)]) 0
     = device_major (sample_driver [(''GT 640'', 3, 0, 2, 900000), (''GTX TITAN'', 3, 5, 14, 837000)]) 1
   \<and> (2 * 192 * 900000 :: int) < 14 * 192 * 837000
   \<and> (2 ^ 31 - 1 :: int) < 14 * 192 * 837000
   \<and> device_perf (sample_sdk 0 [])
       (sample_driver [(''GT 640'', 3, 0, 2, 900000), (''GTX TITAN'', 3, 5, 14, 837000)]) 0
     = 345600000
   \<and> device_perf (sample_sdk 0 [])
       (sample_driver [(''GT 640'', 3, 0, 2, 900000), (''GTX TITAN'', 3, 5, 14, 837000)]) 1
     = - 2045111296"
proof -
  let ?D = "sample_driver [(''GT 640'', 3, 0, 2, 900000), (''GTX TITAN'', 3, 5, 14, 837000)]"
  have run: "getMaxGflopsDeviceIdDRV (sample_sdk 0 []) ?D = ([], Return 0)"
    by code_simp
  have mj: "device_major ?D 0 = device_major ?D 1"
    by (simp add: device_major_def sample_driver_def)
  have p0: "device_perf (sample_sdk 0 []) ?D 0 = 345600000"
    by (simp add: device_perf_def device_major_def device_minor_def sample_driver_def
        sample_sdk_def sm_per_multiproc_def compute_perf_def wrap32_def)
  have p1: "device_perf (sample_sdk 0 []) ?D 1 = - 2045111296"
    by (simp add: device_perf_def device_major_def device_minor_def sample_driver_def
        sample_sdk_def sm_per_multiproc_def compute_perf_def wrap32_def)
  from run mj p0 p1 show ?thesis
    by simp
qed

lemma best_SM_arch_loop_returns_or_aborts:
  "returns_or_aborts (best_SM_arch_loop s drv n cur b0)"
proof (induction "nat (n - cur)" arbitrary: cur b0)
  case 0
  then show ?case by (simp add: best_SM_arch_loop_done ret_def returns_or_aborts_def)
next
  case (Suc k)
  then have lt: "cur < n" by simp
  have k: "k = nat (n - (cur + 1))" using Suc.hyps(2) by linarith
  show ?case
  proof (cases "fst (cuDeviceComputeCapability drv cur) = CUDA_SUCCESS")
    case True
    from Suc.hyps(1) [OF k] show ?thesis
      by (simp add: best_SM_arch_loop_step [OF lt True])
  next
    case False
    then show ?thesis
      by (simp add: best_SM_arch_loop_fail [OF lt False] returns_or_aborts_def)
  qed
qed

lemma max_perf_loop_returns_or_aborts:
  "returns_or_aborts (max_perf_loop s drv n b cur mp md)"
proof (induction "nat (n - cur)" arbitrary: cur mp md)
  case 0
  then show ?case by (simp add: max_perf_loop_done ret_def returns_or_aborts_def)
next
  case (Suc k)
  then have lt: "cur < n" by simp
  have k: "k = nat (n - (cur + 1))" using Suc.hyps(2) by linarith
  show ?case
  proof (cases "queries_ok drv cur")
    case True
    from Suc.hyps(1) [OF k] show ?thesis
      by (simp add: max_perf_loop_step [OF lt True])
  next
    case False
    from max_perf_loop_fail [OF lt False, where s = s and b = b and mp = mp and md = md]
    show ?thesis
      by (simp add: returns_or_aborts_def)
  qed
qed

lemma getMaxGflopsDeviceIdDRV_returns_or_aborts:
  "returns_or_aborts (getMaxGflopsDeviceIdDRV s drv)"
proof (cases "fst (cuDeviceGetCount drv) = CUDA_SUCCESS")
  case False
  then show ?thesis
    by (simp add: getMaxGflopsDeviceIdDRV_def checked_fail returns_or_aborts_def)
next
  case True
  let ?n = "snd (cuDeviceGetCount drv)"
  have unfold: "getMaxGflopsDeviceIdDRV s drv =
      bind (best_SM_arch_loop s drv ?n 0 0) (\<lambda>b. max_perf_loop s drv ?n b 0 0 0)"
    using True by (simp add: getMaxGflopsDeviceIdDRV_def checked_ok)
  from best_SM_arch_loop_returns_or_aborts [of s drv ?n 0 0]
  show ?thesis
    unfolding returns_or_aborts_def [of "best_SM_arch_loop s drv ?n 0 0"]
  proof
    assume "\<exists>r. best_SM_arch_loop s drv ?n 0 0 = ([], Return r)"
    then obtain b where "best_SM_arch_loop s drv ?n 0 0 = ([], Return b)" by blast
    with unfold have "getMaxGflopsDeviceIdDRV s drv = max_perf_loop s drv ?n b 0 0 0"
      by simp
    with max_perf_loop_returns_or_aborts [of s drv ?n b 0 0 0] show ?thesis by simp
  next
    assume "\<exists>m. best_SM_arch_loop s drv ?n 0 0 = ([Stderr m], Exit (- 1))"
    with unfold show ?thesis by (auto simp: returns_or_aborts_def)
  qed
qed

lemma runtime_checked_ok:
  "fst call = cudaSuccess \<Longrightarrow> runtime_checked s call line = ret (snd call)"
  by (simp add: runtime_checked_def runtime_checkCudaErrors_def seq_def)

lemma runtime_checked_fail:
  "fst call \<noteq> cudaSuccess \<Longrightarrow>
   runtime_checked s call line =
     ([Stderr (cudaErrorText s (fst call) line)], Exit (cudaErrorExit s))"
  by (simp add: runtime_checked_def runtime_checkCudaErrors_def seq_def exit_with_def emit_def)

lemma gpuGLDeviceInit_flat:
  "gpuGLDeviceInit s rt ARGV =
     (let n = snd (cudaGetDeviceCount rt);
          dev = max 0 (getCmdLineArgumentInt s ARGV ''device='');
          prop = snd (cudaGetDeviceProperties rt dev);
          using = (if checkCmdLineFlag s ARGV ''quiet'' then []
                   else [Stderr (using_text_GL dev (name prop))])
      in
      if fst (cudaGetDeviceCount rt) \<noteq> cudaSuccess then
        runtime_abort s (fst (cudaGetDeviceCount rt)) 21 []
      else if n = 0 then no_devices_GL
      else if dev > n - 1 then (rejected ''gpuGLDeviceInit'' n dev, Return (- dev))
      else if fst (cudaGetDeviceProperties rt dev) \<noteq> cudaSuccess then
        runtime_abort s (fst (cudaGetDeviceProperties rt dev)) 38 []
      else if major prop < 1 then
        ([Stderr ''Error: device does not support CUDA.\<newline>''], Exit (- 1))
      else if cudaGLSetGLDevice rt dev \<noteq> cudaSuccess then
        runtime_abort s (cudaGLSetGLDevice rt dev) 46 (using @ [GLSetGLDevice dev])
      else (using @ [GLSetGLDevice dev], Return dev))"
  by (simp add: gpuGLDeviceInit_def runtime_checked_ok runtime_checked_fail no_devices_GL_def
      rejected_def runtime_abort_def runtime_checkCudaErrors_def
      Let_def max_def ret_def exit_with_def seq_def emit_def)

lemma findCudaDeviceDRV_flag:
  assumes "checkCmdLineFlag s argv ''device''"
  shows "findCudaDeviceDRV s drv argv p_devID =
     (case gpuDeviceInitDRV s drv argv of
        (t, Exit c) \<Rightarrow> (t, Exit c)
      | (t, Return devID) \<Rightarrow>
          if devID < 0 then (t @ [Stdout ''exiting...\<newline>''], Exit 0)
          else (t, Return (snd (cuDeviceGet drv devID),
                           case p_devID of None \<Rightarrow> None | Some old \<Rightarrow> Some devID)))"
proof -
  obtain t out where run: "gpuDeviceInitDRV s drv argv = (t, out)"
    by (cases "gpuDeviceInitDRV s drv argv")
  show ?thesis
    using assms run
    by (cases out) (simp_all add: findCudaDeviceDRV_def ret_def exit_with_def seq_def emit_def)
qed

lemma findCudaDeviceDRV_no_flag:
  assumes "\<not> checkCmdLineFlag s argv ''device''"
  shows "findCudaDeviceDRV s drv argv p_devID =
     (case getMaxGflopsDeviceIdDRV s drv of
        (t, Exit c) \<Rightarrow> (t, Exit c)
      | (t, Return devID) \<Rightarrow>
          if fst (cuDeviceGet drv devID) \<noteq> CUDA_SUCCESS then
            (t @ [Stderr (checkCudaErrors_text s (fst (cuDeviceGet drv devID)) (FILE_macro s) 149)],
             Exit (- 1))
          else
            (t @ [Stdout (using_text_find devID
                    (snd (cuDeviceGetName drv (snd (cuDeviceGet drv devID)))))],
             Return (snd (cuDeviceGet drv devID),
                     case p_devID of None \<Rightarrow> None | Some old \<Rightarrow> Some devID)))"
proof -
  obtain t out where run: "getMaxGflopsDeviceIdDRV s drv = (t, out)"
    by (cases "getMaxGflopsDeviceIdDRV s drv")
  show ?thesis
    using assms run
    by (cases out)
       (simp_all add: findCudaDeviceDRV_def checked_ok checked_fail ret_def exit_with_def
          seq_def emit_def)
qed

lemma findCudaGLDevice_flag:
  assumes "checkCmdLineFlag s argv ''device''"
  shows "findCudaGLDevice s rt argv =
     (case gpuGLDeviceInit s rt argv of
        (t, Exit c) \<Rightarrow> (t, Exit c)
      | (t, Return devID) \<Rightarrow>
          if devID < 0 then
            (t @ [Stdout ''no CUDA capable devices found, exiting...\<newline>'', DeviceReset], Exit 0)
          else (t, Return devID))"
proof -
  obtain t out where run: "gpuGLDeviceInit s rt argv = (t, out)"
    by (cases "gpuGLDeviceInit s rt argv")
  show ?thesis
    using assms run
    by (cases out) (simp_all add: findCudaGLDevice_def ret_def exit_with_def seq_def emit_def)
qed

subsection \<open>An index beyond the last device\<close>

lemma gpuDeviceInitDRV_refused:
  assumes "cuInit drv 0 = CUDA_SUCCESS" and "cuDeviceGetCount drv = (CUDA_SUCCESS, n)"
    and "0 < n" and "n - 1 < getCmdLineArgumentInt s ARGV ''device=''"
  shows "gpuDeviceInitDRV s drv ARGV =
     (rejected ''cudaDeviceInit'' n (getCmdLineArgumentInt s ARGV ''device=''),
      Return (- getCmdLineArgumentInt s ARGV ''device=''))"
  using assms by (simp add: gpuDeviceInitDRV_flat max_def)

lemma gpuGLDeviceInit_refused:
  assumes "cudaGetDeviceCount rt = (cudaSuccess, n)"
    and "0 < n" and "n - 1 < getCmdLineArgumentInt s ARGV ''device=''"
  shows "gpuGLDeviceInit s rt ARGV =
     (rejected ''gpuGLDeviceInit'' n (getCmdLineArgumentInt s ARGV ''device=''),
      Return (- getCmdLineArgumentInt s ARGV ''device=''))"
  using assms by (simp add: gpuGLDeviceInit_flat max_def Let_def)

text \<open>
  Claim C3, as the code has it. With the \<^verbatim>\<open>device\<close> flag on the command line, at least
  one device, and an index greater than the count minus one, the initialisation helper
  writes its four lines to the standard error stream and returns the negated index to
  \<^verbatim>\<open>findCudaDeviceDRV\<close> (or \<^verbatim>\<open>findCudaGLDevice\<close>), which prints that it is exiting and
  ends the process with exit code 0.
\<close>

theorem refused_index_exits_with_zero:
  assumes "checkCmdLineFlag s argv ''device''"
    and "0 < n" and "n - 1 < getCmdLineArgumentInt s argv ''device=''"
  shows "(cuInit drv 0 = CUDA_SUCCESS \<and> cuDeviceGetCount drv = (CUDA_SUCCESS, n) \<longrightarrow>
            findCudaDeviceDRV s drv argv p_devID =
              (rejected ''cudaDeviceInit'' n (getCmdLineArgumentInt s argv ''device='')
                 @ [Stdout ''exiting...\<newline>''],
               Exit 0))
       \<and> (cudaGetDeviceCount rt = (cudaSuccess, n) \<longrightarrow>
            findCudaGLDevice s rt argv =
              (rejected ''gpuGLDeviceInit'' n (getCmdLineArgumentInt s argv ''device='')
                 @ [Stdout ''no CUDA capable devices found, exiting...\<newline>'', DeviceReset],
               Exit 0))"
proof -
  have neg: "- getCmdLineArgumentInt s argv ''device='' < 0"
    using assms(2,3) by linarith
  have drv: "findCudaDeviceDRV s drv argv p_devID =
      (rejected ''cudaDeviceInit'' n (getCmdLineArgumentInt s argv ''device='')
         @ [Stdout ''exiting...\<newline>''], Exit 0)"
    if "cuInit drv 0 = CUDA_SUCCESS" "cuDeviceGetCount drv = (CUDA_SUCCESS, n)"
    using gpuDeviceInitDRV_refused [OF that assms(2,3)] neg
    by (simp add: findCudaDeviceDRV_flag [OF assms(1)])
  have gl: "findCudaGLDevice s rt argv =
      (rejected ''gpuGLDeviceInit'' n (getCmdLineArgumentInt s argv ''device='')
         @ [Stdout ''no CUDA capable devices found, exiting...\<newline>'', DeviceReset], Exit 0)"
    if "cudaGetDeviceCount rt = (cudaSuccess, n)"
    using gpuGLDeviceInit_refused [OF that assms(2,3)] neg
    by (simp add: findCudaGLDevice_flag [OF assms(1)])
  from drv gl show ?thesis by blast
qed

theorem refused_index_exits_with_zero_witness:
  "checkCmdLineFlag (sample_gl_sdk 5 [''device'']) [''matrixMul'', ''-device=5''] ''device''
   \<and> (0::int) < 1
   \<and> 1 - 1 < getCmdLineArgumentInt (sample_gl_sdk 5 [''device'']) [''matrixMul'', ''-device=5''] ''device=''
   \<and> cuInit (sample_driver [(''GT 640'', 3, 0, 2, 900000)]) 0 = CUDA_SUCCESS
   \<and> cuDeviceGetCount (sample_driver [(''GT 640'', 3, 0, 2, 900000)]) = (CUDA_SUCCESS, 1)
   \<and> cudaGetDeviceCount (sample_runtime [(''GT 640'', 3, 0, 2, 900000)]) = (cudaSuccess, 1)
   \<and> snd (findCudaDeviceDRV (sample_gl_sdk 5 [''device''])
        (sample_driver [(''GT 640'', 3, 0, 2, 900000)]) [''matrixMul'', ''-device=5''] None) = Exit 0
   \<and> snd (findCudaGLDevice (sample_gl_sdk 5 [''device''])
        (sample_runtime [(''GT 640'', 3, 0, 2, 900000)]) [''matrixMul'', ''-device=5'']) = Exit 0"
proof -
  let ?S = "sample_gl_sdk 5 [''device'']"
  let ?argv = "[''matrixMul'', ''-device=5'']"
  have flag: "checkCmdLineFlag ?S ?argv ''device''"
    by (simp add: sample_gl_sdk_def)
  have n: "(0::int) < 1" by simp
  have dev: "1 - 1 < getCmdLineArgumentInt ?S ?argv ''device=''"
    by (simp add: sample_gl_sdk_def)
  have d: "cuInit (sample_driver [(''GT 640'', 3, 0, 2, 900000)]) 0 = CUDA_SUCCESS"
    "cuDeviceGetCount (sample_driver [(''GT 640'', 3, 0, 2, 900000)]) = (CUDA_SUCCESS, 1)"
    by (simp_all add: sample_driver_def CUDA_SUCCESS_def)
  have r: "cudaGetDeviceCount (sample_runtime [(''GT 640'', 3, 0, 2, 900000)]) = (cudaSuccess, 1)"
    by (simp add: sample_runtime_def cudaSuccess_def)
  from refused_index_exits_with_zero [OF flag n dev,
      of "sample_driver [(''GT 640'', 3, 0, 2, 900000)]" None
         "sample_runtime [(''GT 640'', 3, 0, 2, 900000)]"]
    flag dev d r
  show ?thesis by simp
qed

text \<open>
  The claim as the spec states it, with a non-zero exit code, fails: one device and
  \<^verbatim>\<open>-device=5\<close> end the process with exit code 0.
\<close>

theorem refused_index_counterexample:
  "findCudaDeviceDRV (sample_sdk 5 [''device''])
     (sample_driver [(''GT 640'', 3, 0, 2, 900000)]) [''matrixMul'', ''-device=5''] None
   = ([Stderr ''\<newline>'',
       Stderr ''>> 1 CUDA capable GPU device(s) detected. <<\<newline>'',
       Stderr ''>> cudaDeviceInit (-device=5) is not a valid GPU device. <<\<newline>'',
       Stderr ''\<newline>'',
       Stdout ''exiting...\<newline>''],
      Exit 0)"
  by code_simp

subsection \<open>How the initialisation helpers end\<close>

lemma gpuDeviceInitDRV_exit:
  assumes "snd (gpuDeviceInitDRV s drv ARGV) = Exit c"
  shows "c = - 1 \<and> (\<exists>m. fst (gpuDeviceInitDRV s drv ARGV) = [Stderr m])"
  using assms
  by (simp add: gpuDeviceInitDRV_flat no_devices_DRV_def split: if_splits)

lemma gpuGLDeviceInit_exit:
  assumes "snd (gpuGLDeviceInit s rt ARGV) = Exit c"
  shows "(c = - 1 \<or> c = cudaErrorExit s)
     \<and> (\<exists>t m. fst (gpuGLDeviceInit s rt ARGV) = t @ [Stderr m])"
  using assms
  by (simp add: gpuGLDeviceInit_flat no_devices_GL_def runtime_abort_def Let_def
      split: if_splits)

lemma gpuDeviceInitDRV_no_devices:
  assumes "cuInit drv 0 \<noteq> CUDA_SUCCESS \<or> cuDeviceGetCount drv = (CUDA_SUCCESS, 0)"
  shows "gpuDeviceInitDRV s drv ARGV = no_devices_DRV"
  using assms by (auto simp: gpuDeviceInitDRV_flat)

lemma gpuGLDeviceInit_no_devices:
  assumes "cudaGetDeviceCount rt = (cudaSuccess, 0)"
  shows "gpuGLDeviceInit s rt ARGV = no_devices_GL"
  using assms by (simp add: gpuGLDeviceInit_flat)

lemma findCudaDeviceDRV_exit_flag:
  assumes "checkCmdLineFlag s argv ''device''"
  shows "snd (findCudaDeviceDRV s drv argv p_devID) = Exit c \<longleftrightarrow>
     (c = - 1 \<and> snd (gpuDeviceInitDRV s drv argv) = Exit (- 1))
     \<or> (c = 0 \<and> (\<exists>r. r < 0 \<and> snd (gpuDeviceInitDRV s drv argv) = Return r))"
proof -
  obtain t out where run: "gpuDeviceInitDRV s drv argv = (t, out)"
    by (cases "gpuDeviceInitDRV s drv argv")
  show ?thesis
  proof (cases out)
    case (Return r)
    with run show ?thesis
      by (simp add: findCudaDeviceDRV_flag [OF assms])
  next
    case (Exit c')
    with run gpuDeviceInitDRV_exit [of s drv argv c'] have "c' = - 1" by simp
    with run Exit show ?thesis
      by (auto simp: findCudaDeviceDRV_flag [OF assms])
  qed
qed

lemma findCudaGLDevice_exit_flag:
  assumes "checkCmdLineFlag s argv ''device''"
  shows "snd (findCudaGLDevice s rt argv) = Exit c \<longleftrightarrow>
     snd (gpuGLDeviceInit s rt argv) = Exit c
     \<or> (c = 0 \<and> (\<exists>r. r < 0 \<and> snd (gpuGLDeviceInit s rt argv) = Return r))"
proof -
  obtain t out where run: "gpuGLDeviceInit s rt argv = (t, out)"
    by (cases "gpuGLDeviceInit s rt argv")
  show ?thesis
    using run by (cases out) (auto simp: findCudaGLDevice_flag [OF assms])
qed

text \<open>
  The claim as the spec states it, with exit code 0 when no device is enumerated, fails:
  with the flag and no device the exit code is -1.
\<close>

theorem no_devices_exit_code_counterexample:
  "findCudaDeviceDRV (sample_sdk 0 [''device'']) (sample_driver [])
     [''matrixMul'', ''-device=0''] None
   = ([Stderr ''cudaDeviceInit error: no devices supporting CUDA\<newline>''], Exit (- 1))"
  by code_simp

text \<open>
  The claim as the spec states it, with no error result ever returned, fails: two devices
  and \<^verbatim>\<open>-device=2\<close> make \<^verbatim>\<open>gpuDeviceInitDRV\<close> return -2 to its caller.
\<close>

theorem refused_index_is_returned_counterexample:
  "gpuDeviceInitDRV (sample_sdk 2 [''device''])
     (sample_driver [(''GT 640'', 3, 0, 2, 900000), (''GTX 580'', 2, 0, 16, 1544000)])
     [''matrixMul'', ''-device=2'']
   = ([Stderr ''\<newline>'',
       Stderr ''>> 2 CUDA capable GPU device(s) detected. <<\<newline>'',
       Stderr ''>> cudaDeviceInit (-device=2) is not a valid GPU device. <<\<newline>'',
       Stderr ''\<newline>''],
      Return (- 2))"
  by code_simp

subsection \<open>The quiet flag\<close>




subsection \<open>A negative index\<close>

text \<open>
  Claim C8. When the parser gives a negative value for \<^verbatim>\<open>device=\<close>, both initialisation
  helpers run exactly as they do for the value 0: same output, same end. With at least
  one device they go on with device 0 and return 0, and all they write is the line of the
  device in use (nothing with the \<^verbatim>\<open>quiet\<close> flag): no line refuses the argument.
\<close>

theorem negative_index_clamped_to_zero:
  assumes "getCmdLineArgumentInt s ARGV ''device='' < 0"
  shows "gpuDeviceInitDRV s drv ARGV =
           gpuDeviceInitDRV (s\<lparr>getCmdLineArgumentInt := \<lambda>argv a. 0\<rparr>) drv ARGV
       \<and> gpuGLDeviceInit s rt ARGV =
           gpuGLDeviceInit (s\<lparr>getCmdLineArgumentInt := \<lambda>argv a. 0\<rparr>) rt ARGV
       \<and> (cuInit drv 0 = CUDA_SUCCESS \<and> cuDeviceGetCount drv = (CUDA_SUCCESS, n) \<and> 0 < n
            \<and> fst (cuDeviceGet drv 0) = CUDA_SUCCESS \<longrightarrow>
          gpuDeviceInitDRV s drv ARGV =
            (if checkCmdLineFlag s ARGV ''quiet'' then []
             else [Stdout (using_text_DRV 0 (snd (cuDeviceGetName drv (snd (cuDeviceGet drv 0)))))],
             Return 0))
       \<and> (cudaGetDeviceCount rt = (cudaSuccess, n) \<and> 0 < n
            \<and> fst (cudaGetDeviceProperties rt 0) = cudaSuccess
            \<and> 1 \<le> major (snd (cudaGetDeviceProperties rt 0))
            \<and> cudaGLSetGLDevice rt 0 = cudaSuccess \<longrightarrow>
          gpuGLDeviceInit s rt ARGV =
            ((if checkCmdLineFlag s ARGV ''quiet'' then []
              else [Stderr (using_text_GL 0 (name (snd (cudaGetDeviceProperties rt 0))))])
               @ [GLSetGLDevice 0],
             Return 0))"
proof -
  have clamp: "max 0 (getCmdLineArgumentInt s ARGV ''device='') = 0"
    using assms by simp
  have a: "gpuDeviceInitDRV s drv ARGV =
           gpuDeviceInitDRV (s\<lparr>getCmdLineArgumentInt := \<lambda>argv a. 0\<rparr>) drv ARGV"
    by (simp add: gpuDeviceInitDRV_flat clamp checkCudaErrors_text_def)
  have b: "gpuGLDeviceInit s rt ARGV =
           gpuGLDeviceInit (s\<lparr>getCmdLineArgumentInt := \<lambda>argv a. 0\<rparr>) rt ARGV"
    by (simp add: gpuGLDeviceInit_flat clamp runtime_abort_def Let_def)
  have c: "cuInit drv 0 = CUDA_SUCCESS \<and> cuDeviceGetCount drv = (CUDA_SUCCESS, n) \<and> 0 < n
            \<and> fst (cuDeviceGet drv 0) = CUDA_SUCCESS \<longrightarrow>
          gpuDeviceInitDRV s drv ARGV =
            (if checkCmdLineFlag s ARGV ''quiet'' then []
             else [Stdout (using_text_DRV 0 (snd (cuDeviceGetName drv (snd (cuDeviceGet drv 0)))))],
             Return 0)"
    by (simp add: gpuDeviceInitDRV_flat clamp)
  have d: "cudaGetDeviceCount rt = (cudaSuccess, n) \<and> 0 < n
            \<and> fst (cudaGetDeviceProperties rt 0) = cudaSuccess
            \<and> 1 \<le> major (snd (cudaGetDeviceProperties rt 0))
            \<and> cudaGLSetGLDevice rt 0 = cudaSuccess \<longrightarrow>
          gpuGLDeviceInit s rt ARGV =
            ((if checkCmdLineFlag s ARGV ''quiet'' then []
              else [Stderr (using_text_GL 0 (name (snd (cudaGetDeviceProperties rt 0))))])
               @ [GLSetGLDevice 0],
             Return 0)"
    by (simp add: gpuGLDeviceInit_flat clamp Let_def)
  from a b c d show ?thesis by blast
qed

theorem negative_index_clamped_to_zero_witness:
  "getCmdLineArgumentInt (sample_gl_sdk (- 3) [''device'']) [''matrixMul'', ''-device=-3''] ''device='' < 0
   \<and> cuInit (sample_driver [(''GT 640'', 3, 0, 2, 900000)]) 0 = CUDA_SUCCESS
   \<and> cuDeviceGetCount (sample_driver [(''GT 640'', 3, 0, 2, 900000)]) = (CUDA_SUCCESS, 1)
   \<and> fst (cuDeviceGet (sample_driver [(''GT 640'', 3, 0, 2, 900000)]) 0) = CUDA_SUCCESS
   \<and> gpuDeviceInitDRV (sample_gl_sdk (- 3) [''device''])
        (sample_driver [(''GT 640'', 3, 0, 2, 900000)]) [''matrixMul'', ''-device=-3'']
      = ([Stdout (using_text_DRV 0 ''GT 640'')], Return 0)
   \<and> gpuGLDeviceInit (sample_gl_sdk (- 3) [''device''])
        (sample_runtime [(''GT 640'', 3, 0, 2, 900000)]) [''matrixMul'', ''-device=-3'']
      = ([Stderr (using_text_GL 0 ''GT 640''), GLSetGLDevice 0], Return 0)"
proof -
  let ?S = "sample_gl_sdk (- 3) [''device'']"
  let ?argv = "[''matrixMul'', ''-device=-3'']"
  let ?D = "sample_driver [(''GT 640'', 3, 0, 2, 900000)]"
  let ?R = "sample_runtime [(''GT 640'', 3, 0, 2, 900000)]"
  have neg: "getCmdLineArgumentInt ?S ?argv ''device='' < 0"
    and nq: "\<not> checkCmdLineFlag ?S ?argv ''quiet''"
    by (simp_all add: sample_gl_sdk_def)
  have d: "cuInit ?D 0 = CUDA_SUCCESS" "cuDeviceGetCount ?D = (CUDA_SUCCESS, 1)"
    "fst (cuDeviceGet ?D 0) = CUDA_SUCCESS"
    "snd (cuDeviceGetName ?D (snd (cuDeviceGet ?D 0))) = ''GT 640''"
    by (simp_all add: sample_driver_def CUDA_SUCCESS_def)
  have r: "cudaGetDeviceCount ?R = (cudaSuccess, 1)"
    "fst (cudaGetDeviceProperties ?R 0) = cudaSuccess"
    "1 \<le> major (snd (cudaGetDeviceProperties ?R 0))"
    "cudaGLSetGLDevice ?R 0 = cudaSuccess"
    "name (snd (cudaGetDeviceProperties ?R 0)) = ''GT 640''"
    by (simp_all add: sample_runtime_def cudaSuccess_def)
  have i1: "cuInit ?D 0 = CUDA_SUCCESS \<and> cuDeviceGetCount ?D = (CUDA_SUCCESS, 1) \<and> (0::int) < 1
      \<and> fst (cuDeviceGet ?D 0) = CUDA_SUCCESS"
    using d by simp
  have i2: "cudaGetDeviceCount ?R = (cudaSuccess, 1) \<and> (0::int) < 1
      \<and> fst (cudaGetDeviceProperties ?R 0) = cudaSuccess
      \<and> 1 \<le> major (snd (cudaGetDeviceProperties ?R 0))
      \<and> cudaGLSetGLDevice ?R 0 = cudaSuccess"
    using r by simp
  from negative_index_clamped_to_zero [OF neg, of ?D ?R 1] i1 i2
  have "gpuDeviceInitDRV ?S ?D ?argv =
            (if checkCmdLineFlag ?S ?argv ''quiet'' then []
             else [Stdout (using_text_DRV 0 (snd (cuDeviceGetName ?D (snd (cuDeviceGet ?D 0)))))],
             Return 0)"
    and "gpuGLDeviceInit ?S ?R ?argv =
            ((if checkCmdLineFlag ?S ?argv ''quiet'' then []
              else [Stderr (using_text_GL 0 (name (snd (cudaGetDeviceProperties ?R 0))))])
               @ [GLSetGLDevice 0],
             Return 0)"
    by blast+
  with neg nq d r show ?thesis by simp
qed

subsection \<open>Devices that do not support CUDA\<close>

lemma gpuGLDeviceInit_cases:
  assumes "dev = max 0 (getCmdLineArgumentInt s ARGV ''device='')"
  shows "gpuGLDeviceInit s rt ARGV =
     (if fst (cudaGetDeviceCount rt) \<noteq> cudaSuccess then
        runtime_abort s (fst (cudaGetDeviceCount rt)) 21 []
      else if snd (cudaGetDeviceCount rt) = 0 then no_devices_GL
      else if dev > snd (cudaGetDeviceCount rt) - 1 then
        (rejected ''gpuGLDeviceInit'' (snd (cudaGetDeviceCount rt)) dev, Return (- dev))
      else if fst (cudaGetDeviceProperties rt dev) \<noteq> cudaSuccess then
        runtime_abort s (fst (cudaGetDeviceProperties rt dev)) 38 []
      else if major (snd (cudaGetDeviceProperties rt dev)) < 1 then
        ([Stderr ''Error: device does not support CUDA.\<newline>''], Exit (- 1))
      else if cudaGLSetGLDevice rt dev \<noteq> cudaSuccess then
        runtime_abort s (cudaGLSetGLDevice rt dev) 46
          ((if checkCmdLineFlag s ARGV ''quiet'' then []
            else [Stderr (using_text_GL dev (name (snd (cudaGetDeviceProperties rt dev))))])
           @ [GLSetGLDevice dev])
      else ((if checkCmdLineFlag s ARGV ''quiet'' then []
             else [Stderr (using_text_GL dev (name (snd (cudaGetDeviceProperties rt dev))))])
            @ [GLSetGLDevice dev], Return dev))"
  unfolding assms gpuGLDeviceInit_flat Let_def by (rule refl)

text \<open>
  Claim C9. Once \<^verbatim>\<open>gpuGLDeviceInit\<close> has the properties of the selected device, a major
  version below 1 ends the process with exit code -1, after the line "Error: device does
  not support CUDA." on the standard error stream and nothing else. The helper calls
  \<^verbatim>\<open>cudaGLSetGLDevice\<close> only for the selected device and only when its major version is
  at least 1; and when it returns, it returns either the negated index that it refused or
  the selected index, the latter only with a major version of at least 1 and after the
  call of \<^verbatim>\<open>cudaGLSetGLDevice\<close> has succeeded.
\<close>

theorem gpuGLDeviceInit_requires_major_1:
  assumes "dev = max 0 (getCmdLineArgumentInt s ARGV ''device='')"
  shows "(fst (cudaGetDeviceCount rt) = cudaSuccess \<and> snd (cudaGetDeviceCount rt) \<noteq> 0
            \<and> dev \<le> snd (cudaGetDeviceCount rt) - 1
            \<and> fst (cudaGetDeviceProperties rt dev) = cudaSuccess
            \<and> major (snd (cudaGetDeviceProperties rt dev)) < 1 \<longrightarrow>
          gpuGLDeviceInit s rt ARGV =
            ([Stderr ''Error: device does not support CUDA.\<newline>''], Exit (- 1)))
       \<and> (\<forall>d. GLSetGLDevice d \<in> set (fst (gpuGLDeviceInit s rt ARGV)) \<longrightarrow>
             d = dev \<and> 1 \<le> major (snd (cudaGetDeviceProperties rt dev)))
       \<and> (\<forall>r. snd (gpuGLDeviceInit s rt ARGV) = Return r \<longrightarrow>
             (r = - dev \<and> snd (cudaGetDeviceCount rt) - 1 < dev
                \<and> fst (gpuGLDeviceInit s rt ARGV) =
                    rejected ''gpuGLDeviceInit'' (snd (cudaGetDeviceCount rt)) dev)
             \<or> (r = dev \<and> 1 \<le> major (snd (cudaGetDeviceProperties rt dev))
                \<and> GLSetGLDevice dev \<in> set (fst (gpuGLDeviceInit s rt ARGV))
                \<and> cudaGLSetGLDevice rt dev = cudaSuccess))"
proof -
  have a: "fst (cudaGetDeviceCount rt) = cudaSuccess \<and> snd (cudaGetDeviceCount rt) \<noteq> 0
            \<and> dev \<le> snd (cudaGetDeviceCount rt) - 1
            \<and> fst (cudaGetDeviceProperties rt dev) = cudaSuccess
            \<and> major (snd (cudaGetDeviceProperties rt dev)) < 1 \<longrightarrow>
          gpuGLDeviceInit s rt ARGV =
            ([Stderr ''Error: device does not support CUDA.\<newline>''], Exit (- 1))"
    by (simp add: gpuGLDeviceInit_cases [OF assms])
  have b: "d = dev \<and> 1 \<le> major (snd (cudaGetDeviceProperties rt dev))"
    if "GLSetGLDevice d \<in> set (fst (gpuGLDeviceInit s rt ARGV))" for d
    using that
    by (simp add: gpuGLDeviceInit_cases [OF assms] no_devices_GL_def rejected_def
        runtime_abort_def split: if_splits)
  have c: "(r = - dev \<and> snd (cudaGetDeviceCount rt) - 1 < dev
                \<and> fst (gpuGLDeviceInit s rt ARGV) =
                    rejected ''gpuGLDeviceInit'' (snd (cudaGetDeviceCount rt)) dev)
             \<or> (r = dev \<and> 1 \<le> major (snd (cudaGetDeviceProperties rt dev))
                \<and> GLSetGLDevice dev \<in> set (fst (gpuGLDeviceInit s rt ARGV))
                \<and> cudaGLSetGLDevice rt dev = cudaSuccess)"
    if "snd (gpuGLDeviceInit s rt ARGV) = Return r" for r
    using that
    by (simp add: gpuGLDeviceInit_cases [OF assms] no_devices_GL_def runtime_abort_def
        split: if_splits)
  from a b c show ?thesis by blast
qed

theorem gpuGLDeviceInit_requires_major_1_witness:
  "(0::int) = max 0 (getCmdLineArgumentInt (sample_gl_sdk 0 [''device'']) [''matrixMul'', ''-device=0''] ''device='')
   \<and> fst (cudaGetDeviceCount (sample_runtime [(''Emulated'', 0, 0, 1, 1000)])) = cudaSuccess
   \<and> major (snd (cudaGetDeviceProperties (sample_runtime [(''Emulated'', 0, 0, 1, 1000)]) 0)) < 1
   \<and> gpuGLDeviceInit (sample_gl_sdk 0 [''device''])
        (sample_runtime [(''Emulated'', 0, 0, 1, 1000)]) [''matrixMul'', ''-device=0'']
      = ([Stderr ''Error: device does not support CUDA.\<newline>''], Exit (- 1))"
proof -
  let ?S = "sample_gl_sdk 0 [''device'']"
  let ?argv = "[''matrixMul'', ''-device=0'']"
  let ?R = "sample_runtime [(''Emulated'', 0, 0, 1, 1000)]"
  have dev: "(0::int) = max 0 (getCmdLineArgumentInt ?S ?argv ''device='')"
    by (simp add: sample_gl_sdk_def)
  have r: "fst (cudaGetDeviceCount ?R) = cudaSuccess" "snd (cudaGetDeviceCount ?R) \<noteq> 0"
    "0 \<le> snd (cudaGetDeviceCount ?R) - 1"
    "fst (cudaGetDeviceProperties ?R 0) = cudaSuccess"
    "major (snd (cudaGetDeviceProperties ?R 0)) < 1"
    by (simp_all add: sample_runtime_def cudaSuccess_def)
  from gpuGLDeviceInit_requires_major_1 [OF dev, of ?R] dev r
  show ?thesis by blast
qed

subsection \<open>Picking the device\<close>

lemma gpuDeviceInitDRV_cases:
  assumes "dev = max 0 (getCmdLineArgumentInt s ARGV ''device='')"
  shows "gpuDeviceInitDRV s drv ARGV =
     (if cuInit drv 0 \<noteq> CUDA_SUCCESS then no_devices_DRV
      else if fst (cuDeviceGetCount drv) \<noteq> CUDA_SUCCESS then
        ([Stderr (checkCudaErrors_text s (fst (cuDeviceGetCount drv)) (FILE_macro s) 53)], Exit (- 1))
      else if snd (cuDeviceGetCount drv) = 0 then no_devices_DRV
      else if dev > snd (cuDeviceGetCount drv) - 1 then
        (rejected ''cudaDeviceInit'' (snd (cuDeviceGetCount drv)) dev, Return (- dev))
      else if fst (cuDeviceGet drv dev) \<noteq> CUDA_SUCCESS then
        ([Stderr (checkCudaErrors_text s (fst (cuDeviceGet drv dev)) (FILE_macro s) 68)], Exit (- 1))
      else
        (if checkCmdLineFlag s ARGV ''quiet'' then []
         else [Stdout (using_text_DRV dev (snd (cuDeviceGetName drv (snd (cuDeviceGet drv dev)))))],
         Return dev))"
  unfolding assms gpuDeviceInitDRV_flat by (rule refl)

lemma gpuDeviceInitDRV_returns_valid:
  assumes "snd (gpuDeviceInitDRV s drv ARGV) = Return r" and "0 \<le> r"
    and "0 \<le> snd (cuDeviceGetCount drv)"
  shows "fst (cuDeviceGet drv r) = CUDA_SUCCESS"
  using assms
  by (simp add: gpuDeviceInitDRV_cases [OF refl] no_devices_DRV_def split: if_splits)

text \<open>
  Claim C6. With the \<^verbatim>\<open>device\<close> flag, \<^verbatim>\<open>findCudaDeviceDRV\<close> takes the index that
  \<^verbatim>\<open>gpuDeviceInitDRV\<close> returns; without it, the index that
  \<^verbatim>\<open>getMaxGflopsDeviceIdDRV\<close> returns, and prints the device in use. In both cases it
  returns the handle that \<^verbatim>\<open>cuDeviceGet\<close> gives for this index, a call that succeeds,
  and it stores the index through \<^verbatim>\<open>p_devID\<close> when the pointer is not null. It returns
  in no other way.
\<close>

theorem findCudaDeviceDRV_selects:
  "(checkCmdLineFlag s argv ''device'' \<and> gpuDeviceInitDRV s drv argv = (t, Return devID)
      \<and> 0 \<le> devID \<and> 0 \<le> snd (cuDeviceGetCount drv) \<longrightarrow>
        findCudaDeviceDRV s drv argv p_devID =
          (t, Return (snd (cuDeviceGet drv devID),
                      case p_devID of None \<Rightarrow> None | Some old \<Rightarrow> Some devID))
        \<and> fst (cuDeviceGet drv devID) = CUDA_SUCCESS)
   \<and> (\<not> checkCmdLineFlag s argv ''device'' \<and> getMaxGflopsDeviceIdDRV s drv = (t, Return devID)
      \<and> fst (cuDeviceGet drv devID) = CUDA_SUCCESS \<longrightarrow>
        findCudaDeviceDRV s drv argv p_devID =
          (t @ [Stdout (using_text_find devID
                  (snd (cuDeviceGetName drv (snd (cuDeviceGet drv devID)))))],
           Return (snd (cuDeviceGet drv devID),
                   case p_devID of None \<Rightarrow> None | Some old \<Rightarrow> Some devID)))
   \<and> (findCudaDeviceDRV s drv argv p_devID = (t', Return (cuDevice, stored)) \<longrightarrow>
        (\<exists>chosen.
            snd (if checkCmdLineFlag s argv ''device'' then gpuDeviceInitDRV s drv argv
                 else getMaxGflopsDeviceIdDRV s drv) = Return chosen
            \<and> cuDevice = snd (cuDeviceGet drv chosen)
            \<and> stored = (case p_devID of None \<Rightarrow> None | Some old \<Rightarrow> Some chosen)))"
proof -
  have a: "findCudaDeviceDRV s drv argv p_devID =
          (t, Return (snd (cuDeviceGet drv devID),
                      case p_devID of None \<Rightarrow> None | Some old \<Rightarrow> Some devID))
        \<and> fst (cuDeviceGet drv devID) = CUDA_SUCCESS"
    if "checkCmdLineFlag s argv ''device''" "gpuDeviceInitDRV s drv argv = (t, Return devID)"
      "0 \<le> devID" "0 \<le> snd (cuDeviceGetCount drv)"
  proof -
    have "fst (cuDeviceGet drv devID) = CUDA_SUCCESS"
      using that by (simp add: gpuDeviceInitDRV_returns_valid [of s drv argv devID])
    moreover have "findCudaDeviceDRV s drv argv p_devID =
          (t, Return (snd (cuDeviceGet drv devID),
                      case p_devID of None \<Rightarrow> None | Some old \<Rightarrow> Some devID))"
      using that by (simp add: findCudaDeviceDRV_flag)
    ultimately show ?thesis by simp
  qed
  have b: "findCudaDeviceDRV s drv argv p_devID =
          (t @ [Stdout (using_text_find devID
                  (snd (cuDeviceGetName drv (snd (cuDeviceGet drv devID)))))],
           Return (snd (cuDeviceGet drv devID),
                   case p_devID of None \<Rightarrow> None | Some old \<Rightarrow> Some devID))"
    if "\<not> checkCmdLineFlag s argv ''device''" "getMaxGflopsDeviceIdDRV s drv = (t, Return devID)"
      "fst (cuDeviceGet drv devID) = CUDA_SUCCESS"
    using that by (simp add: findCudaDeviceDRV_no_flag)
  have c: "\<exists>chosen.
            snd (if checkCmdLineFlag s argv ''device'' then gpuDeviceInitDRV s drv argv
                 else getMaxGflopsDeviceIdDRV s drv) = Return chosen
            \<and> cuDevice = snd (cuDeviceGet drv chosen)
            \<and> stored = (case p_devID of None \<Rightarrow> None | Some old \<Rightarrow> Some chosen)"
    if run: "findCudaDeviceDRV s drv argv p_devID = (t', Return (cuDevice, stored))"
  proof (cases "checkCmdLineFlag s argv ''device''")
    case True
    obtain t0 out where init: "gpuDeviceInitDRV s drv argv = (t0, out)"
      by (cases "gpuDeviceInitDRV s drv argv")
    from run init True show ?thesis
      by (cases out) (auto simp: findCudaDeviceDRV_flag split: if_splits)
  next
    case False
    obtain t0 out where best: "getMaxGflopsDeviceIdDRV s drv = (t0, out)"
      by (cases "getMaxGflopsDeviceIdDRV s drv")
    show ?thesis
    proof (cases out)
      case (Exit c)
      with run best False show ?thesis
        by (simp add: findCudaDeviceDRV_no_flag)
    next
      case (Return r)
      with run best False have sel: "cuDevice = snd (cuDeviceGet drv r)"
        "stored = (case p_devID of None \<Rightarrow> None | Some old \<Rightarrow> Some r)"
        by (auto simp: findCudaDeviceDRV_no_flag split: if_splits)
      with sel best False Return show ?thesis by simp
    qed
  qed
  from a b c show ?thesis by blast
qed

theorem findCudaDeviceDRV_selects_witness:
  "checkCmdLineFlag (sample_sdk 1 [''device'']) [''matrixMul'', ''-device=1''] ''device''
   \<and> gpuDeviceInitDRV (sample_sdk 1 [''device''])
        (sample_driver [(''GT 640'', 3, 0, 2, 900000), (''GTX 580'', 2, 0, 16, 1544000)])
        [''matrixMul'', ''-device=1'']
      = ([Stdout (using_text_DRV 1 ''GTX 580'')], Return 1)
   \<and> findCudaDeviceDRV (sample_sdk 1 [''device''])
        (sample_driver [(''GT 640'', 3, 0, 2, 900000), (''GTX 580'', 2, 0, 16, 1544000)])
        [''matrixMul'', ''-device=1''] (Some 7)
      = ([Stdout (using_text_DRV 1 ''GTX 580'')], Return (1, Some 1))
   \<and> \<not> checkCmdLineFlag (sample_sdk 0 []) [''matrixMul''] ''device''
   \<and> getMaxGflopsDeviceIdDRV (sample_sdk 0 [])
        (sample_driver [(''GT 640'', 3, 0, 2, 900000), (''GTX 580'', 2, 0, 16, 1544000)])
      = ([], Return 0)
   \<and> findCudaDeviceDRV (sample_sdk 0 [])
        (sample_driver [(''GT 640'', 3, 0, 2, 900000), (''GTX 580'', 2, 0, 16, 1544000)])
        [''matrixMul''] None
      = ([Stdout (using_text_find 0 ''GT 640'')], Return (0, None))"
proof -
  let ?D = "sample_driver [(''GT 640'', 3, 0, 2, 900000), (''GTX 580'', 2, 0, 16, 1544000)]"
  have flag: "checkCmdLineFlag (sample_sdk 1 [''device'']) [''matrixMul'', ''-device=1''] ''device''"
    and no_flag: "\<not> checkCmdLineFlag (sample_sdk 0 []) [''matrixMul''] ''device''"
    by (simp_all add: sample_sdk_def)
  have init: "gpuDeviceInitDRV (sample_sdk 1 [''device'']) ?D [''matrixMul'', ''-device=1'']
      = ([Stdout (using_text_DRV 1 ''GTX 580'')], Return 1)"
    by code_simp
  have best: "getMaxGflopsDeviceIdDRV (sample_sdk 0 []) ?D = ([], Return 0)"
    by code_simp
  have d: "0 \<le> snd (cuDeviceGetCount ?D)" "fst (cuDeviceGet ?D 0) = CUDA_SUCCESS"
    "snd (cuDeviceGet ?D 0) = 0" "snd (cuDeviceGet ?D 1) = 1"
    "snd (cuDeviceGetName ?D 0) = ''GT 640''"
    by (simp_all add: sample_driver_def CUDA_SUCCESS_def)
  have one: "(0::int) \<le> 1" by simp
  from findCudaDeviceDRV_selects
         [of "sample_sdk 1 [''device'']" "[''matrixMul'', ''-device=1'']" ?D
             "[Stdout (using_text_DRV 1 ''GTX 580'')]" 1 "Some 7", THEN conjunct1]
    flag init one d(1)
  have r1: "findCudaDeviceDRV (sample_sdk 1 [''device'']) ?D [''matrixMul'', ''-device=1''] (Some 7)
      = ([Stdout (using_text_DRV 1 ''GTX 580'')],
         Return (snd (cuDeviceGet ?D 1), case Some (7::int) of None \<Rightarrow> None | Some old \<Rightarrow> Some 1))"
    by blast
  from findCudaDeviceDRV_selects
         [of "sample_sdk 0 []" "[''matrixMul'']" ?D "[]" 0 None,
          THEN conjunct2, THEN conjunct1]
    no_flag best d(2)
  have r2: "findCudaDeviceDRV (sample_sdk 0 []) ?D [''matrixMul''] None
      = ([] @ [Stdout (using_text_find 0 (snd (cuDeviceGetName ?D (snd (cuDeviceGet ?D 0)))))],
         Return (snd (cuDeviceGet ?D 0), case None :: int option of None \<Rightarrow> None | Some old \<Rightarrow> Some 0))"
    by blast
  from r1 r2 d(3-5) have
    "findCudaDeviceDRV (sample_sdk 1 [''device'']) ?D [''matrixMul'', ''-device=1''] (Some 7)
      = ([Stdout (using_text_DRV 1 ''GTX 580'')], Return (1, Some 1))"
    "findCudaDeviceDRV (sample_sdk 0 []) ?D [''matrixMul''] None
      = ([Stdout (using_text_find 0 ''GT 640'')], Return (0, None))"
    by simp_all
  with flag no_flag init best show ?thesis
    by (intro conjI)
qed

subsection \<open>When getMaxGflopsDeviceIdDRV returns\<close>

lemma max_perf_loop_returned:
  assumes "snd (max_perf_loop s drv n b cur mp md) = Return r"
  shows "\<forall>d. cur \<le> d \<and> d < n \<longrightarrow> queries_ok drv d"
  using assms
proof (induction "nat (n - cur)" arbitrary: cur mp md)
  case 0
  then show ?case by auto
next
  case (Suc k)
  then have lt: "cur < n" by simp
  have k: "k = nat (n - (cur + 1))" using Suc.hyps(2) by linarith
  have ok: "queries_ok drv cur"
  proof (rule ccontr)
    assume "\<not> queries_ok drv cur"
    from max_perf_loop_fail [OF lt this, where s = s and b = b and mp = mp and md = md]
      Suc.prems show False by auto
  qed
  have "\<exists>mp' md'. snd (max_perf_loop s drv n b (cur + 1) mp' md') = Return r"
    using Suc.prems by (auto simp: max_perf_loop_step [OF lt ok] split: if_splits)
  then obtain mp' md' where "snd (max_perf_loop s drv n b (cur + 1) mp' md') = Return r"
    by blast
  from Suc.hyps(1) [OF k this]
  have rest: "\<forall>d. cur + 1 \<le> d \<and> d < n \<longrightarrow> queries_ok drv d" .
  show ?case
  proof (intro allI impI)
    fix d assume d: "cur \<le> d \<and> d < n"
    show "queries_ok drv d"
    proof (cases "d = cur")
      case True with ok show ?thesis by simp
    next
      case False
      with d have "cur + 1 \<le> d \<and> d < n" by linarith
      with rest show ?thesis by blast
    qed
  qed
qed

lemma getMaxGflopsDeviceIdDRV_returned:
  assumes count: "cuDeviceGetCount drv = (CUDA_SUCCESS, n)"
    and run: "snd (getMaxGflopsDeviceIdDRV s drv) = Return r"
  shows "\<forall>d. 0 \<le> d \<and> d < n \<longrightarrow> queries_ok drv d"
proof -
  have unfold: "getMaxGflopsDeviceIdDRV s drv =
      bind (best_SM_arch_loop s drv n 0 0) (\<lambda>b. max_perf_loop s drv n b 0 0 0)"
    using count by (simp add: getMaxGflopsDeviceIdDRV_def checked_ok)
  from best_SM_arch_loop_returns_or_aborts [of s drv n 0 0]
  have "(\<exists>b. best_SM_arch_loop s drv n 0 0 = ([], Return b))
      \<or> (\<exists>m. best_SM_arch_loop s drv n 0 0 = ([Stderr m], Exit (- 1)))"
    by (simp add: returns_or_aborts_def)
  then show ?thesis
  proof
    assume "\<exists>b. best_SM_arch_loop s drv n 0 0 = ([], Return b)"
    then obtain b where "best_SM_arch_loop s drv n 0 0 = ([], Return b)" by blast
    with unfold run have "snd (max_perf_loop s drv n b 0 0 0) = Return r" by simp
    then show ?thesis by (rule max_perf_loop_returned)
  next
    assume "\<exists>m. best_SM_arch_loop s drv n 0 0 = ([Stderr m], Exit (- 1))"
    with unfold run show ?thesis by auto
  qed
qed

subsection \<open>The index that getMaxGflopsDeviceIdDRV returns\<close>

lemma getMaxGflopsDeviceIdDRV_returned_index:
  assumes count: "cuDeviceGetCount drv = (CUDA_SUCCESS, n)"
    and run: "snd (getMaxGflopsDeviceIdDRV s drv) = Return r"
  shows "\<exists>b. is_best_SM_arch drv 0 n 0 b
     \<and> ((r = 0 \<and> none_better s drv b 0 n 0) \<or> best_so_far s drv b 0 n 0 r)"
proof -
  from getMaxGflopsDeviceIdDRV_returned [OF count run]
  have "\<forall>d. 0 \<le> d \<and> d < n \<longrightarrow> queries_ok drv d" .
  from getMaxGflopsDeviceIdDRV_spec [OF count this, of s]
  obtain r' b where r': "getMaxGflopsDeviceIdDRV s drv = ([], Return r')"
    and best: "is_best_SM_arch drv 0 n 0 b"
    and alt: "(r' = 0 \<and> none_better s drv b 0 n 0) \<or> best_so_far s drv b 0 n 0 r'"
    by blast
  from r' run have "r' = r" by simp
  with best alt show ?thesis by blast
qed

lemma device_perf_product:
  "device_perf s drv d =
     wrap32 (wrap32 (snd (cuDeviceGetAttribute drv CU_DEVICE_ATTRIBUTE_MULTIPROCESSOR_COUNT d)
                     * (if device_major drv d = 9999 \<and> device_minor drv d = 9999 then 1
                        else ConvertSMVer2Cores s (device_major drv d) (device_minor drv d)))
             * snd (cuDeviceGetAttribute drv CU_DEVICE_ATTRIBUTE_CLOCK_RATE d))"
  by (simp add: device_perf_def compute_perf_def sm_per_multiproc_def)

text \<open>
  Claim C10, as the code has it. Once the count of the devices is known,
  \<^verbatim>\<open>getMaxGflopsDeviceIdDRV\<close> returns, with no output, when the queries of every device
  succeed, and only then. What it returns is 0 when the count is not positive, and an index
  from 0 up to the count otherwise. The score of a device is the wrapped product of its
  multiprocessor count, its cores per multiprocessor and its clock rate, and the second
  loop searches every device when the best architecture \<open>b\<close> is at most 2, and the
  devices of architecture \<open>b\<close> otherwise. When some searched device has a positive
  score, the returned device is searched, no searched device has a greater score, and
  every searched device of a lower index has a smaller one: it is the lowest index among
  the searched devices of the greatest score. When no searched device has a positive
  score, the function returns 0, whether device 0 is searched or not.
\<close>

theorem getMaxGflopsDeviceIdDRV_returned_index_cases:
  assumes count: "cuDeviceGetCount drv = (CUDA_SUCCESS, n)"
  shows "((\<forall>d. 0 \<le> d \<and> d < n \<longrightarrow> queries_ok drv d) \<longleftrightarrow>
            (\<exists>r. getMaxGflopsDeviceIdDRV s drv = ([], Return r)))
       \<and> (\<forall>r. snd (getMaxGflopsDeviceIdDRV s drv) = Return r \<longrightarrow>
            (n \<le> 0 \<longrightarrow> r = 0)
            \<and> (0 < n \<longrightarrow> 0 \<le> r \<and> r < n)
            \<and> (\<exists>b. is_best_SM_arch drv 0 n 0 b
                 \<and> ((\<exists>d. 0 \<le> d \<and> d < n \<and> searched b (device_major drv d)
                          \<and> 0 < device_perf s drv d)
                      \<longrightarrow> searched b (device_major drv r)
                          \<and> 0 < device_perf s drv r
                          \<and> (\<forall>d. 0 \<le> d \<and> d < n \<and> searched b (device_major drv d)
                                 \<longrightarrow> device_perf s drv d \<le> device_perf s drv r)
                          \<and> (\<forall>d. 0 \<le> d \<and> d < r \<and> searched b (device_major drv d)
                                 \<longrightarrow> device_perf s drv d < device_perf s drv r))
                 \<and> (\<not> (\<exists>d. 0 \<le> d \<and> d < n \<and> searched b (device_major drv d)
                            \<and> 0 < device_perf s drv d)
                      \<longrightarrow> r = 0)))
       \<and> (\<forall>d. device_perf s drv d =
              wrap32 (wrap32 (snd (cuDeviceGetAttribute drv CU_DEVICE_ATTRIBUTE_MULTIPROCESSOR_COUNT d)
                              * (if device_major drv d = 9999 \<and> device_minor drv d = 9999 then 1
                                 else ConvertSMVer2Cores s (device_major drv d) (device_minor drv d)))
                      * snd (cuDeviceGetAttribute drv CU_DEVICE_ATTRIBUTE_CLOCK_RATE d)))
       \<and> (\<forall>b mj. searched b mj \<longleftrightarrow> b \<le> 2 \<or> mj = b)"
proof -
  have returns: "\<exists>r. getMaxGflopsDeviceIdDRV s drv = ([], Return r)"
    if "\<forall>d. 0 \<le> d \<and> d < n \<longrightarrow> queries_ok drv d"
    using getMaxGflopsDeviceIdDRV_spec [OF count that, of s] by blast
  have ok: "\<forall>d. 0 \<le> d \<and> d < n \<longrightarrow> queries_ok drv d"
    if "\<exists>r. getMaxGflopsDeviceIdDRV s drv = ([], Return r)"
  proof -
    from that obtain r where "snd (getMaxGflopsDeviceIdDRV s drv) = Return r" by auto
    then show ?thesis by (rule getMaxGflopsDeviceIdDRV_returned [OF count])
  qed
  have choice: "(n \<le> 0 \<longrightarrow> r = 0)
            \<and> (0 < n \<longrightarrow> 0 \<le> r \<and> r < n)
            \<and> (\<exists>b. is_best_SM_arch drv 0 n 0 b
                 \<and> ((\<exists>d. 0 \<le> d \<and> d < n \<and> searched b (device_major drv d)
                          \<and> 0 < device_perf s drv d)
                      \<longrightarrow> searched b (device_major drv r)
                          \<and> 0 < device_perf s drv r
                          \<and> (\<forall>d. 0 \<le> d \<and> d < n \<and> searched b (device_major drv d)
                                 \<longrightarrow> device_perf s drv d \<le> device_perf s drv r)
                          \<and> (\<forall>d. 0 \<le> d \<and> d < r \<and> searched b (device_major drv d)
                                 \<longrightarrow> device_perf s drv d < device_perf s drv r))
                 \<and> (\<not> (\<exists>d. 0 \<le> d \<and> d < n \<and> searched b (device_major drv d)
                            \<and> 0 < device_perf s drv d)
                      \<longrightarrow> r = 0))"
    if run: "snd (getMaxGflopsDeviceIdDRV s drv) = Return r" for r
  proof -
    from getMaxGflopsDeviceIdDRV_returned_index [OF count run]
    obtain b where best: "is_best_SM_arch drv 0 n 0 b"
      and alt: "(r = 0 \<and> none_better s drv b 0 n 0) \<or> best_so_far s drv b 0 n 0 r"
      by blast
    let ?some = "\<exists>d. 0 \<le> d \<and> d < n \<and> searched b (device_major drv d) \<and> 0 < device_perf s drv d"
    from alt have props: "(n \<le> 0 \<longrightarrow> r = 0)
            \<and> (0 < n \<longrightarrow> 0 \<le> r \<and> r < n)
            \<and> (?some \<longrightarrow> searched b (device_major drv r)
                  \<and> 0 < device_perf s drv r
                  \<and> (\<forall>d. 0 \<le> d \<and> d < n \<and> searched b (device_major drv d)
                         \<longrightarrow> device_perf s drv d \<le> device_perf s drv r)
                  \<and> (\<forall>d. 0 \<le> d \<and> d < r \<and> searched b (device_major drv d)
                         \<longrightarrow> device_perf s drv d < device_perf s drv r))
            \<and> (\<not> ?some \<longrightarrow> r = 0)"
    proof
      assume a: "r = 0 \<and> none_better s drv b 0 n 0"
      then have "\<And>d. 0 \<le> d \<Longrightarrow> d < n \<Longrightarrow> searched b (device_major drv d)
          \<Longrightarrow> device_perf s drv d \<le> 0"
        by (simp add: none_better_def)
      then have "\<not> ?some" by fastforce
      with a show ?thesis by blast
    next
      assume a: "best_so_far s drv b 0 n 0 r"
      then have r: "0 \<le> r" "r < n" "searched b (device_major drv r)" "0 < device_perf s drv r"
        and le: "\<forall>d. 0 \<le> d \<and> d < n \<and> searched b (device_major drv d)
                 \<longrightarrow> device_perf s drv d \<le> device_perf s drv r"
        and lt: "\<forall>d. 0 \<le> d \<and> d < r \<and> searched b (device_major drv d)
                 \<longrightarrow> device_perf s drv d < device_perf s drv r"
        by (simp_all add: best_so_far_def)
      from r have some: ?some by blast
      have "\<not> n \<le> 0" using r by linarith
      with r le lt some show ?thesis by blast
    qed
    with best show ?thesis by blast
  qed
  have filter: "\<forall>b mj. searched b mj \<longleftrightarrow> b \<le> 2 \<or> mj = b"
    by (auto simp: searched_def)
  from returns ok choice device_perf_product [of s drv] filter show ?thesis
    by blast
qed

theorem getMaxGflopsDeviceIdDRV_returned_index_cases_witness:
  "cuDeviceGetCount (sample_driver [(''GTX 580'', 2, 0, 16, 1544000),
       (''GT 640'', 3, 0, 2, 900000), (''GT 640'', 3, 0, 2, 900000)]) = (CUDA_SUCCESS, 3)
   \<and> getMaxGflopsDeviceIdDRV (sample_sdk 0 [])
        (sample_driver [(''GTX 580'', 2, 0, 16, 1544000),
           (''GT 640'', 3, 0, 2, 900000), (''GT 640'', 3, 0, 2, 900000)])
      = ([], Return 1)
   \<and> device_perf (sample_sdk 0 [])
        (sample_driver [(''GTX 580'', 2, 0, 16, 1544000),
           (''GT 640'', 3, 0, 2, 900000), (''GT 640'', 3, 0, 2, 900000)]) 0 = 790528000
   \<and> device_perf (sample_sdk 0 [])
        (sample_driver [(''GTX 580'', 2, 0, 16, 1544000),
           (''GT 640'', 3, 0, 2, 900000), (''GT 640'', 3, 0, 2, 900000)]) 1 = 345600000
   \<and> device_perf (sample_sdk 0 [])
        (sample_driver [(''GTX 580'', 2, 0, 16, 1544000),
           (''GT 640'', 3, 0, 2, 900000), (''GT 640'', 3, 0, 2, 900000)]) 2 = 345600000
   \<and> best_SM_arch_loop (sample_sdk 0 [])
        (sample_driver [(''GTX 580'', 2, 0, 16, 1544000),
           (''GT 640'', 3, 0, 2, 900000), (''GT 640'', 3, 0, 2, 900000)]) 3 0 0 = ([], Return 3)
   \<and> \<not> searched 3 2 \<and> searched 3 3"
proof -
  let ?S = "sample_sdk 0 []"
  let ?D = "sample_driver [(''GTX 580'', 2, 0, 16, 1544000),
       (''GT 640'', 3, 0, 2, 900000), (''GT 640'', 3, 0, 2, 900000)]"
  have count: "cuDeviceGetCount ?D = (CUDA_SUCCESS, 3)"
    by (simp add: sample_driver_def CUDA_SUCCESS_def)
  have ok: "\<forall>d. 0 \<le> d \<and> d < 3 \<longrightarrow> queries_ok ?D d"
    by (simp add: queries_ok_def sample_driver_def CUDA_SUCCESS_def)
  note inst = getMaxGflopsDeviceIdDRV_returned_index_cases [OF count, of ?S]
  from inst ok obtain r where r: "getMaxGflopsDeviceIdDRV ?S ?D = ([], Return r)"
    by blast
  have run: "getMaxGflopsDeviceIdDRV ?S ?D = ([], Return 1)"
    by code_simp
  from inst have filter: "\<forall>b mj. searched b mj \<longleftrightarrow> b \<le> 2 \<or> mj = b"
    by blast
  have s: "\<not> searched 3 2" "searched 3 3"
    by (simp_all add: filter)
  have p: "device_perf ?S ?D 0 = 790528000" "device_perf ?S ?D 1 = 345600000"
    "device_perf ?S ?D 2 = 345600000"
    by (simp_all add: device_perf_def device_major_def device_minor_def sample_driver_def
        sample_sdk_def sm_per_multiproc_def compute_perf_def wrap32_def)
  have b: "best_SM_arch_loop ?S ?D 3 0 0 = ([], Return 3)"
    by code_simp
  from count run p b s show ?thesis
    by (intro conjI)
qed

text \<open>
  The claim as stated, with the lowest eligible index returned among the devices of equal
  greatest score, fails. Here device 0 is of architecture 2, and devices 1 and 2 are of an
  architecture 5 that the table of cores does not know (it gives -1), so that their
  equal scores are negative: the best architecture is 5, device 0 is not searched, and
  the function returns 0.
\<close>

theorem getMaxGflopsDeviceIdDRV_default_index_counterexample:
  "getMaxGflopsDeviceIdDRV (sample_sdk 0 [])
     (sample_driver [(''GTX 580'', 2, 0, 16, 1544000),
        (''GTX 750'', 5, 0, 4, 1020000), (''GTX 750'', 5, 0, 4, 1020000)])
     = ([], Return 0)
   \<and> best_SM_arch_loop (sample_sdk 0 [])
       (sample_driver [(''GTX 580'', 2, 0, 16, 1544000),
          (''GTX 750'', 5, 0, 4, 1020000), (''GTX 750'', 5, 0, 4, 1020000)]) 3 0 0
     = ([], Return 5)
   \<and> \<not> searched 5 (device_major (sample_driver [(''GTX 580'', 2, 0, 16, 1544000),
          (''GTX 750'', 5, 0, 4, 1020000), (''GTX 750'', 5, 0, 4, 1020000)]) 0)
   \<and> searched 5 (device_major (sample_driver [(''GTX 580'', 2, 0, 16, 1544000),
          (''GTX 750'', 5, 0, 4, 1020000), (''GTX 750'', 5, 0, 4, 1020000)]) 1)
   \<and> searched 5 (device_major (sample_driver [(''GTX 580'', 2, 0, 16, 1544000),
          (''GTX 750'', 5, 0, 4, 1020000), (''GTX 750'', 5, 0, 4, 1020000)]) 2)
   \<and> device_perf (sample_sdk 0 [])
       (sample_driver [(''GTX 580'', 2, 0, 16, 1544000),
          (''GTX 750'', 5, 0, 4, 1020000), (''GTX 750'', 5, 0, 4, 1020000)]) 1 = - 4080000
   \<and> device_perf (sample_sdk 0 [])
       (sample_driver [(''GTX 580'', 2, 0, 16, 1544000),
          (''GTX 750'', 5, 0, 4, 1020000), (''GTX 750'', 5, 0, 4, 1020000)]) 2 = - 4080000"
proof -
  let ?S = "sample_sdk 0 []"
  let ?D = "sample_driver [(''GTX 580'', 2, 0, 16, 1544000),
        (''GTX 750'', 5, 0, 4, 1020000), (''GTX 750'', 5, 0, 4, 1020000)]"
  have run: "getMaxGflopsDeviceIdDRV ?S ?D = ([], Return 0)"
    by code_simp
  have b: "best_SM_arch_loop ?S ?D 3 0 0 = ([], Return 5)"
    by code_simp
  have s: "\<not> searched 5 (device_major ?D 0)" "searched 5 (device_major ?D 1)"
    "searched 5 (device_major ?D 2)"
    by (simp_all add: searched_def device_major_def sample_driver_def)
  have p: "device_perf ?S ?D 1 = - 4080000" "device_perf ?S ?D 2 = - 4080000"
    by (simp_all add: device_perf_def device_major_def device_minor_def sample_driver_def
        sample_sdk_def sm_per_multiproc_def compute_perf_def wrap32_def)
  from run b s p show ?thesis
    by (intro conjI)
qed

subsection \<open>Exit codes\<close>

lemma gpuDeviceInitDRV_exit_iff:
  assumes "dev = max 0 (getCmdLineArgumentInt s ARGV ''device='')"
  shows "snd (gpuDeviceInitDRV s drv ARGV) = Exit c \<longleftrightarrow>
     c = - 1
     \<and> (cuInit drv 0 \<noteq> CUDA_SUCCESS \<or> fst (cuDeviceGetCount drv) \<noteq> CUDA_SUCCESS
        \<or> snd (cuDeviceGetCount drv) = 0
        \<or> (dev \<le> snd (cuDeviceGetCount drv) - 1 \<and> fst (cuDeviceGet drv dev) \<noteq> CUDA_SUCCESS))"
  by (auto simp: gpuDeviceInitDRV_cases [OF assms] no_devices_DRV_def)

lemma gpuDeviceInitDRV_negative_iff:
  assumes "dev = max 0 (getCmdLineArgumentInt s ARGV ''device='')"
  shows "(\<exists>r. r < 0 \<and> snd (gpuDeviceInitDRV s drv ARGV) = Return r) \<longleftrightarrow>
     cuInit drv 0 = CUDA_SUCCESS \<and> fst (cuDeviceGetCount drv) = CUDA_SUCCESS
     \<and> snd (cuDeviceGetCount drv) \<noteq> 0 \<and> snd (cuDeviceGetCount drv) - 1 < dev \<and> 0 < dev"
proof -
  have "0 \<le> dev" using assms by simp
  then show ?thesis
    by (auto simp: gpuDeviceInitDRV_cases [OF assms] no_devices_DRV_def)
qed

lemma gpuGLDeviceInit_exit_iff:
  assumes "dev = max 0 (getCmdLineArgumentInt s ARGV ''device='')"
  shows "snd (gpuGLDeviceInit s rt ARGV) = Exit c \<longleftrightarrow>
     (c = - 1 \<and> fst (cudaGetDeviceCount rt) = cudaSuccess
        \<and> (snd (cudaGetDeviceCount rt) = 0
           \<or> (dev \<le> snd (cudaGetDeviceCount rt) - 1
              \<and> fst (cudaGetDeviceProperties rt dev) = cudaSuccess
              \<and> major (snd (cudaGetDeviceProperties rt dev)) < 1)))
     \<or> (c = cudaErrorExit s
        \<and> (fst (cudaGetDeviceCount rt) \<noteq> cudaSuccess
           \<or> (snd (cudaGetDeviceCount rt) \<noteq> 0 \<and> dev \<le> snd (cudaGetDeviceCount rt) - 1
              \<and> (fst (cudaGetDeviceProperties rt dev) \<noteq> cudaSuccess
                 \<or> (1 \<le> major (snd (cudaGetDeviceProperties rt dev))
                    \<and> cudaGLSetGLDevice rt dev \<noteq> cudaSuccess)))))"
  by (auto simp: gpuGLDeviceInit_cases [OF assms] no_devices_GL_def runtime_abort_def)

lemma gpuGLDeviceInit_negative_iff:
  assumes "dev = max 0 (getCmdLineArgumentInt s ARGV ''device='')"
  shows "(\<exists>r. r < 0 \<and> snd (gpuGLDeviceInit s rt ARGV) = Return r) \<longleftrightarrow>
     fst (cudaGetDeviceCount rt) = cudaSuccess
     \<and> snd (cudaGetDeviceCount rt) \<noteq> 0 \<and> snd (cudaGetDeviceCount rt) - 1 < dev \<and> 0 < dev"
proof -
  have "0 \<le> dev" using assms by simp
  then show ?thesis
    by (auto simp: gpuGLDeviceInit_cases [OF assms] no_devices_GL_def runtime_abort_def)
qed

lemma getMaxGflopsDeviceIdDRV_no_devices:
  assumes "cuDeviceGetCount drv = (CUDA_SUCCESS, 0)"
  shows "getMaxGflopsDeviceIdDRV s drv = ([], Return 0)"
  using assms
  by (simp add: getMaxGflopsDeviceIdDRV_def checked_ok best_SM_arch_loop_done
      max_perf_loop_done ret_def)

lemma findCudaDeviceDRV_exit_no_flag_iff:
  assumes "\<not> checkCmdLineFlag s argv ''device''"
  shows "snd (findCudaDeviceDRV s drv argv p_devID) = Exit c \<longleftrightarrow>
     c = - 1
     \<and> (snd (getMaxGflopsDeviceIdDRV s drv) = Exit (- 1)
        \<or> (\<exists>r. snd (getMaxGflopsDeviceIdDRV s drv) = Return r
               \<and> fst (cuDeviceGet drv r) \<noteq> CUDA_SUCCESS))"
proof -
  from getMaxGflopsDeviceIdDRV_returns_or_aborts [of s drv]
  have "(\<exists>r. getMaxGflopsDeviceIdDRV s drv = ([], Return r))
      \<or> (\<exists>m. getMaxGflopsDeviceIdDRV s drv = ([Stderr m], Exit (- 1)))"
    by (simp add: returns_or_aborts_def)
  then show ?thesis
  proof
    assume "\<exists>r. getMaxGflopsDeviceIdDRV s drv = ([], Return r)"
    then obtain r where "getMaxGflopsDeviceIdDRV s drv = ([], Return r)" by blast
    then show ?thesis
      by (auto simp: findCudaDeviceDRV_no_flag [OF assms])
  next
    assume "\<exists>m. getMaxGflopsDeviceIdDRV s drv = ([Stderr m], Exit (- 1))"
    then obtain m where "getMaxGflopsDeviceIdDRV s drv = ([Stderr m], Exit (- 1))" by blast
    then show ?thesis
      by (auto simp: findCudaDeviceDRV_no_flag [OF assms])
  qed
qed

lemma findCudaGLDevice_exit_no_flag_iff:
  assumes "\<not> checkCmdLineFlag s argv ''device''"
  shows "snd (findCudaGLDevice s rt argv) = Exit c \<longleftrightarrow> snd (gpuGetMaxGflopsDeviceId s) = Exit c"
proof -
  obtain t out where run: "gpuGetMaxGflopsDeviceId s = (t, out)"
    by (cases "gpuGetMaxGflopsDeviceId s")
  show ?thesis
    using assms run
    by (cases out) (simp_all add: findCudaGLDevice_def ret_def seq_def emit_def)
qed

text \<open>
  Claim C4, as the code has it. The index is the value of \<^verbatim>\<open>device=\<close>, or 0 when that
  is negative.

  With the \<^verbatim>\<open>device\<close> flag, \<^verbatim>\<open>findCudaDeviceDRV\<close> ends the process with exit code 0
  exactly when the driver is initialised, the count of devices is obtained and not zero,
  and the index is positive and greater than the count minus one: the path on which
  \<^verbatim>\<open>gpuDeviceInitDRV\<close> returns the negated index, which is a return value and never an
  exit code. It ends it with -1 exactly when the initialisation of the driver or the
  call for the count fails, the count is zero, or \<^verbatim>\<open>cuDeviceGet\<close> fails for an index
  in range; it ends it with no other code. A failed initialisation and a count of zero
  give the line that no device supports CUDA. \<^verbatim>\<open>findCudaGLDevice\<close> with the flag has
  exit code 0 on the same path, -1 exactly for a count of zero and for a device of major
  version below 1, and the code of the runtime's \<^verbatim>\<open>checkCudaErrors\<close> exactly when one of
  its three checked calls fails.

  Without the flag, \<^verbatim>\<open>findCudaDeviceDRV\<close> ends the process only with -1, exactly when
  \<^verbatim>\<open>getMaxGflopsDeviceIdDRV\<close> does or \<^verbatim>\<open>cuDeviceGet\<close> fails for the index it returns;
  with a count of zero that index is 0, and the process ends, after the line of
  \<^verbatim>\<open>checkCudaErrors\<close>, exactly when \<^verbatim>\<open>cuDeviceGet\<close> fails for index 0.
  \<^verbatim>\<open>findCudaGLDevice\<close> without the flag ends the process exactly as
  \<^verbatim>\<open>gpuGetMaxGflopsDeviceId\<close> does.
\<close>

theorem exit_codes_of_find:
  assumes "dev = max 0 (getCmdLineArgumentInt s argv ''device='')"
  shows "(checkCmdLineFlag s argv ''device'' \<longrightarrow>
            (\<forall>c. snd (findCudaDeviceDRV s drv argv p_devID) = Exit c \<longleftrightarrow>
                 (c = 0 \<and> cuInit drv 0 = CUDA_SUCCESS \<and> fst (cuDeviceGetCount drv) = CUDA_SUCCESS
                    \<and> snd (cuDeviceGetCount drv) \<noteq> 0 \<and> snd (cuDeviceGetCount drv) - 1 < dev
                    \<and> 0 < dev)
                 \<or> (c = - 1
                    \<and> (cuInit drv 0 \<noteq> CUDA_SUCCESS \<or> fst (cuDeviceGetCount drv) \<noteq> CUDA_SUCCESS
                       \<or> snd (cuDeviceGetCount drv) = 0
                       \<or> (dev \<le> snd (cuDeviceGetCount drv) - 1
                          \<and> fst (cuDeviceGet drv dev) \<noteq> CUDA_SUCCESS))))
            \<and> (cuInit drv 0 \<noteq> CUDA_SUCCESS \<or> cuDeviceGetCount drv = (CUDA_SUCCESS, 0) \<longrightarrow>
                 findCudaDeviceDRV s drv argv p_devID =
                   ([Stderr ''cudaDeviceInit error: no devices supporting CUDA\<newline>''], Exit (- 1)))
            \<and> (\<forall>c. snd (findCudaGLDevice s rt argv) = Exit c \<longleftrightarrow>
                 (c = 0 \<and> fst (cudaGetDeviceCount rt) = cudaSuccess
                    \<and> snd (cudaGetDeviceCount rt) \<noteq> 0 \<and> snd (cudaGetDeviceCount rt) - 1 < dev
                    \<and> 0 < dev)
                 \<or> (c = - 1 \<and> fst (cudaGetDeviceCount rt) = cudaSuccess
                    \<and> (snd (cudaGetDeviceCount rt) = 0
                       \<or> (dev \<le> snd (cudaGetDeviceCount rt) - 1
                          \<and> fst (cudaGetDeviceProperties rt dev) = cudaSuccess
                          \<and> major (snd (cudaGetDeviceProperties rt dev)) < 1)))
                 \<or> (c = cudaErrorExit s
                    \<and> (fst (cudaGetDeviceCount rt) \<noteq> cudaSuccess
                       \<or> (snd (cudaGetDeviceCount rt) \<noteq> 0
                          \<and> dev \<le> snd (cudaGetDeviceCount rt) - 1
                          \<and> (fst (cudaGetDeviceProperties rt dev) \<noteq> cudaSuccess
                             \<or> (1 \<le> major (snd (cudaGetDeviceProperties rt dev))
                                \<and> cudaGLSetGLDevice rt dev \<noteq> cudaSuccess))))))
            \<and> (cudaGetDeviceCount rt = (cudaSuccess, 0) \<longrightarrow>
                 findCudaGLDevice s rt argv =
                   ([Stderr ''CUDA error: no devices supporting CUDA.\<newline>''], Exit (- 1))))
       \<and> (\<not> checkCmdLineFlag s argv ''device'' \<longrightarrow>
            (\<forall>c. snd (findCudaDeviceDRV s drv argv p_devID) = Exit c \<longleftrightarrow>
                 c = - 1
                 \<and> (snd (getMaxGflopsDeviceIdDRV s drv) = Exit (- 1)
                    \<or> (\<exists>r. snd (getMaxGflopsDeviceIdDRV s drv) = Return r
                           \<and> fst (cuDeviceGet drv r) \<noteq> CUDA_SUCCESS)))
            \<and> (cuDeviceGetCount drv = (CUDA_SUCCESS, 0) \<longrightarrow>
                 getMaxGflopsDeviceIdDRV s drv = ([], Return 0)
                 \<and> (fst (cuDeviceGet drv 0) \<noteq> CUDA_SUCCESS \<longrightarrow>
                      findCudaDeviceDRV s drv argv p_devID =
                        ([Stderr (checkCudaErrors_text s (fst (cuDeviceGet drv 0)) (FILE_macro s) 149)],
                         Exit (- 1)))
                 \<and> (fst (cuDeviceGet drv 0) = CUDA_SUCCESS \<longrightarrow>
                      (\<exists>t v. findCudaDeviceDRV s drv argv p_devID = (t, Return v))))
            \<and> (\<forall>c. snd (findCudaGLDevice s rt argv) = Exit c \<longleftrightarrow>
                 snd (gpuGetMaxGflopsDeviceId s) = Exit c))"
proof -
  have drv_flag: "snd (findCudaDeviceDRV s drv argv p_devID) = Exit c \<longleftrightarrow>
                 (c = 0 \<and> cuInit drv 0 = CUDA_SUCCESS \<and> fst (cuDeviceGetCount drv) = CUDA_SUCCESS
                    \<and> snd (cuDeviceGetCount drv) \<noteq> 0 \<and> snd (cuDeviceGetCount drv) - 1 < dev
                    \<and> 0 < dev)
                 \<or> (c = - 1
                    \<and> (cuInit drv 0 \<noteq> CUDA_SUCCESS \<or> fst (cuDeviceGetCount drv) \<noteq> CUDA_SUCCESS
                       \<or> snd (cuDeviceGetCount drv) = 0
                       \<or> (dev \<le> snd (cuDeviceGetCount drv) - 1
                          \<and> fst (cuDeviceGet drv dev) \<noteq> CUDA_SUCCESS)))"
    if "checkCmdLineFlag s argv ''device''" for c
    unfolding findCudaDeviceDRV_exit_flag [OF that]
      gpuDeviceInitDRV_exit_iff [OF assms] gpuDeviceInitDRV_negative_iff [OF assms]
    by blast
  have drv_none: "findCudaDeviceDRV s drv argv p_devID =
          ([Stderr ''cudaDeviceInit error: no devices supporting CUDA\<newline>''], Exit (- 1))"
    if "checkCmdLineFlag s argv ''device''"
      and "cuInit drv 0 \<noteq> CUDA_SUCCESS \<or> cuDeviceGetCount drv = (CUDA_SUCCESS, 0)"
    using gpuDeviceInitDRV_no_devices [OF that(2), of s argv]
    by (simp add: findCudaDeviceDRV_flag [OF that(1)] no_devices_DRV_def)
  have gl_flag: "snd (findCudaGLDevice s rt argv) = Exit c \<longleftrightarrow>
                 (c = 0 \<and> fst (cudaGetDeviceCount rt) = cudaSuccess
                    \<and> snd (cudaGetDeviceCount rt) \<noteq> 0 \<and> snd (cudaGetDeviceCount rt) - 1 < dev
                    \<and> 0 < dev)
                 \<or> (c = - 1 \<and> fst (cudaGetDeviceCount rt) = cudaSuccess
                    \<and> (snd (cudaGetDeviceCount rt) = 0
                       \<or> (dev \<le> snd (cudaGetDeviceCount rt) - 1
                          \<and> fst (cudaGetDeviceProperties rt dev) = cudaSuccess
                          \<and> major (snd (cudaGetDeviceProperties rt dev)) < 1)))
                 \<or> (c = cudaErrorExit s
                    \<and> (fst (cudaGetDeviceCount rt) \<noteq> cudaSuccess
                       \<or> (snd (cudaGetDeviceCount rt) \<noteq> 0
                          \<and> dev \<le> snd (cudaGetDeviceCount rt) - 1
                          \<and> (fst (cudaGetDeviceProperties rt dev) \<noteq> cudaSuccess
                             \<or> (1 \<le> major (snd (cudaGetDeviceProperties rt dev))
                                \<and> cudaGLSetGLDevice rt dev \<noteq> cudaSuccess)))))"
    if "checkCmdLineFlag s argv ''device''" for c
    unfolding findCudaGLDevice_exit_flag [OF that]
      gpuGLDeviceInit_exit_iff [OF assms] gpuGLDeviceInit_negative_iff [OF assms]
    by blast
  have gl_none: "findCudaGLDevice s rt argv =
          ([Stderr ''CUDA error: no devices supporting CUDA.\<newline>''], Exit (- 1))"
    if "checkCmdLineFlag s argv ''device''" and "cudaGetDeviceCount rt = (cudaSuccess, 0)"
    using gpuGLDeviceInit_no_devices [OF that(2), of s argv]
    by (simp add: findCudaGLDevice_flag [OF that(1)] no_devices_GL_def)
  have drv_no_flag: "snd (findCudaDeviceDRV s drv argv p_devID) = Exit c \<longleftrightarrow>
                 c = - 1
                 \<and> (snd (getMaxGflopsDeviceIdDRV s drv) = Exit (- 1)
                    \<or> (\<exists>r. snd (getMaxGflopsDeviceIdDRV s drv) = Return r
                           \<and> fst (cuDeviceGet drv r) \<noteq> CUDA_SUCCESS))"
    if "\<not> checkCmdLineFlag s argv ''device''" for c
    by (rule findCudaDeviceDRV_exit_no_flag_iff [OF that])
  have drv_zero: "getMaxGflopsDeviceIdDRV s drv = ([], Return 0)"
    if "\<not> checkCmdLineFlag s argv ''device''" and "cuDeviceGetCount drv = (CUDA_SUCCESS, 0)"
    by (rule getMaxGflopsDeviceIdDRV_no_devices [OF that(2)])
  have drv_zero_fail: "findCudaDeviceDRV s drv argv p_devID =
        ([Stderr (checkCudaErrors_text s (fst (cuDeviceGet drv 0)) (FILE_macro s) 149)],
         Exit (- 1))"
    if "\<not> checkCmdLineFlag s argv ''device''" and "cuDeviceGetCount drv = (CUDA_SUCCESS, 0)"
      and "fst (cuDeviceGet drv 0) \<noteq> CUDA_SUCCESS"
    using getMaxGflopsDeviceIdDRV_no_devices [OF that(2), of s] that(3)
    by (simp add: findCudaDeviceDRV_no_flag [OF that(1)])
  have drv_zero_ok: "\<exists>t v. findCudaDeviceDRV s drv argv p_devID = (t, Return v)"
    if "\<not> checkCmdLineFlag s argv ''device''" and "cuDeviceGetCount drv = (CUDA_SUCCESS, 0)"
      and "fst (cuDeviceGet drv 0) = CUDA_SUCCESS"
    using getMaxGflopsDeviceIdDRV_no_devices [OF that(2), of s] that(3)
    by (simp add: findCudaDeviceDRV_no_flag [OF that(1)])
  have gl_no_flag: "snd (findCudaGLDevice s rt argv) = Exit c \<longleftrightarrow>
                 snd (gpuGetMaxGflopsDeviceId s) = Exit c"
    if "\<not> checkCmdLineFlag s argv ''device''" for c
    by (rule findCudaGLDevice_exit_no_flag_iff [OF that])
  show ?thesis
    apply (intro conjI impI allI)
            apply (erule drv_flag)
           apply (erule (1) drv_none)
          apply (erule gl_flag)
         apply (erule (1) gl_none)
        apply (erule drv_no_flag)
       apply (erule (1) drv_zero)
      apply (erule (2) drv_zero_fail)
     apply (erule (2) drv_zero_ok)
    apply (erule gl_no_flag)
    done
qed

theorem exit_codes_of_find_witness:
  "(0::int) = max 0 (getCmdLineArgumentInt (sample_gl_sdk 0 [''device'']) [''matrixMul'', ''-device=0''] ''device='')
   \<and> checkCmdLineFlag (sample_gl_sdk 0 [''device'']) [''matrixMul'', ''-device=0''] ''device''
   \<and> cuDeviceGetCount (sample_driver []) = (CUDA_SUCCESS, 0)
   \<and> cudaGetDeviceCount (sample_runtime []) = (cudaSuccess, 0)
   \<and> snd (findCudaDeviceDRV (sample_gl_sdk 0 [''device'']) (sample_driver [])
            [''matrixMul'', ''-device=0''] None) = Exit (- 1)
   \<and> snd (findCudaGLDevice (sample_gl_sdk 0 [''device'']) (sample_runtime [])
            [''matrixMul'', ''-device=0'']) = Exit (- 1)
   \<and> (5::int) = max 0 (getCmdLineArgumentInt (sample_gl_sdk 5 [''device'']) [''matrixMul'', ''-device=5''] ''device='')
   \<and> snd (findCudaDeviceDRV (sample_gl_sdk 5 [''device''])
            (sample_driver [(''GT 640'', 3, 0, 2, 900000)])
            [''matrixMul'', ''-device=5''] None) = Exit 0
   \<and> snd (findCudaGLDevice (sample_gl_sdk 5 [''device''])
            (sample_runtime [(''GT 640'', 3, 0, 2, 900000)])
            [''matrixMul'', ''-device=5'']) = Exit 0
   \<and> \<not> checkCmdLineFlag (sample_gl_sdk 0 []) [''matrixMul''] ''device''
   \<and> fst (cuDeviceGet (sample_driver []) 0) \<noteq> CUDA_SUCCESS
   \<and> snd (findCudaDeviceDRV (sample_gl_sdk 0 []) (sample_driver []) [''matrixMul''] None)
       = Exit (- 1)"
proof -
  let ?S0 = "sample_gl_sdk 0 [''device'']"
  let ?S5 = "sample_gl_sdk 5 [''device'']"
  let ?SN = "sample_gl_sdk 0 []"
  let ?D1 = "sample_driver [(''GT 640'', 3, 0, 2, 900000)]"
  let ?R1 = "sample_runtime [(''GT 640'', 3, 0, 2, 900000)]"
  have dev0: "(0::int) = max 0 (getCmdLineArgumentInt ?S0 [''matrixMul'', ''-device=0''] ''device='')"
    and dev5: "(5::int) = max 0 (getCmdLineArgumentInt ?S5 [''matrixMul'', ''-device=5''] ''device='')"
    and devn: "(0::int) = max 0 (getCmdLineArgumentInt ?SN [''matrixMul''] ''device='')"
    by (simp_all add: sample_gl_sdk_def)
  have flag0: "checkCmdLineFlag ?S0 [''matrixMul'', ''-device=0''] ''device''"
    and flag5: "checkCmdLineFlag ?S5 [''matrixMul'', ''-device=5''] ''device''"
    and no_flag: "\<not> checkCmdLineFlag ?SN [''matrixMul''] ''device''"
    by (simp_all add: sample_gl_sdk_def)
  have d0: "cuDeviceGetCount (sample_driver []) = (CUDA_SUCCESS, 0)"
    "fst (cuDeviceGet (sample_driver []) 0) \<noteq> CUDA_SUCCESS"
    by (simp_all add: sample_driver_def CUDA_SUCCESS_def)
  have r0: "cudaGetDeviceCount (sample_runtime []) = (cudaSuccess, 0)"
    by (simp add: sample_runtime_def cudaSuccess_def)
  have d1: "cuInit ?D1 0 = CUDA_SUCCESS" "fst (cuDeviceGetCount ?D1) = CUDA_SUCCESS"
    "snd (cuDeviceGetCount ?D1) = 1"
    by (simp_all add: sample_driver_def CUDA_SUCCESS_def)
  have r1: "fst (cudaGetDeviceCount ?R1) = cudaSuccess" "snd (cudaGetDeviceCount ?R1) = 1"
    by (simp_all add: sample_runtime_def cudaSuccess_def)
  from exit_codes_of_find [OF dev0, where drv = "sample_driver []" and p_devID = None
      and rt = "sample_runtime []"] flag0 d0(1) r0
  have a: "snd (findCudaDeviceDRV ?S0 (sample_driver []) [''matrixMul'', ''-device=0''] None)
        = Exit (- 1)"
    "snd (findCudaGLDevice ?S0 (sample_runtime []) [''matrixMul'', ''-device=0'']) = Exit (- 1)"
    by simp_all
  from exit_codes_of_find [OF dev5, where drv = ?D1 and p_devID = None and rt = ?R1] flag5
  have "snd (findCudaDeviceDRV ?S5 ?D1 [''matrixMul'', ''-device=5''] None) = Exit 0 \<longleftrightarrow>
      cuInit ?D1 0 = CUDA_SUCCESS \<and> fst (cuDeviceGetCount ?D1) = CUDA_SUCCESS
      \<and> snd (cuDeviceGetCount ?D1) \<noteq> 0 \<and> snd (cuDeviceGetCount ?D1) - 1 < 5 \<and> (0::int) < 5"
    and "snd (findCudaGLDevice ?S5 ?R1 [''matrixMul'', ''-device=5'']) = Exit 0 \<longleftrightarrow>
      (fst (cudaGetDeviceCount ?R1) = cudaSuccess
      \<and> snd (cudaGetDeviceCount ?R1) \<noteq> 0 \<and> snd (cudaGetDeviceCount ?R1) - 1 < 5 \<and> (0::int) < 5)
      \<or> (0 = cudaErrorExit ?S5
        \<and> (fst (cudaGetDeviceCount ?R1) \<noteq> cudaSuccess
           \<or> (snd (cudaGetDeviceCount ?R1) \<noteq> 0 \<and> 5 \<le> snd (cudaGetDeviceCount ?R1) - 1
              \<and> (fst (cudaGetDeviceProperties ?R1 5) \<noteq> cudaSuccess
                 \<or> (1 \<le> major (snd (cudaGetDeviceProperties ?R1 5))
                    \<and> cudaGLSetGLDevice ?R1 5 \<noteq> cudaSuccess)))))"
    by simp_all
  with d1 r1
  have b: "snd (findCudaDeviceDRV ?S5 ?D1 [''matrixMul'', ''-device=5''] None) = Exit 0"
    "snd (findCudaGLDevice ?S5 ?R1 [''matrixMul'', ''-device=5'']) = Exit 0"
    by simp_all
  from exit_codes_of_find [OF devn, where drv = "sample_driver []" and p_devID = None
      and rt = "sample_runtime []"] no_flag d0
  have c: "snd (findCudaDeviceDRV ?SN (sample_driver []) [''matrixMul''] None) = Exit (- 1)"
    by simp
  from dev0 dev5 flag0 no_flag d0 r0 a b c show ?thesis
    by (intro conjI)
qed

subsection \<open>The failure modes of the initialisation helpers\<close>

text \<open>
  Claim C5, as the code has it. The index is the value of \<^verbatim>\<open>device=\<close>, or 0 when that
  is negative. Two of the three failure modes end the process. When no device is found
  (for \<^verbatim>\<open>gpuDeviceInitDRV\<close> also when the initialisation of the driver fails), the
  helper writes its line to the standard error stream and calls \<^verbatim>\<open>exit\<close> with -1. When
  a checked call of the native API fails, \<^verbatim>\<open>cuDeviceGetCount\<close> or \<^verbatim>\<open>cuDeviceGet\<close>
  in \<^verbatim>\<open>gpuDeviceInitDRV\<close>, \<^verbatim>\<open>cudaGetDeviceCount\<close>, \<^verbatim>\<open>cudaGetDeviceProperties\<close> or
  \<^verbatim>\<open>cudaGLSetGLDevice\<close> in \<^verbatim>\<open>gpuGLDeviceInit\<close>, the helper writes the line of
  \<^verbatim>\<open>checkCudaErrors\<close> and calls \<^verbatim>\<open>exit\<close>, with -1 or with the code of the runtime's
  macro. Every exit of the two helpers directly follows a line on the standard error
  stream. The status of \<^verbatim>\<open>cuDeviceGetName\<close> is not checked: the run does not depend on
  it. The third failure mode does not end the process: for an index beyond the last
  device the helper writes its lines and returns the negated index, a negative error
  result, to its caller.
\<close>

theorem init_failure_modes:
  assumes "dev = max 0 (getCmdLineArgumentInt s ARGV ''device='')"
  shows "(\<forall>c. snd (gpuDeviceInitDRV s drv ARGV) = Exit c \<longrightarrow>
         c = - 1 \<and> (\<exists>m. fst (gpuDeviceInitDRV s drv ARGV) = [Stderr m]))
   \<and> (\<forall>c. snd (gpuGLDeviceInit s rt ARGV) = Exit c \<longrightarrow>
         (c = - 1 \<or> c = cudaErrorExit s)
         \<and> (\<exists>t m. fst (gpuGLDeviceInit s rt ARGV) = t @ [Stderr m]))
   \<and> (cuInit drv 0 \<noteq> CUDA_SUCCESS \<or> cuDeviceGetCount drv = (CUDA_SUCCESS, 0) \<longrightarrow>
         gpuDeviceInitDRV s drv ARGV =
           ([Stderr ''cudaDeviceInit error: no devices supporting CUDA\<newline>''], Exit (- 1)))
   \<and> (cudaGetDeviceCount rt = (cudaSuccess, 0) \<longrightarrow>
         gpuGLDeviceInit s rt ARGV =
           ([Stderr ''CUDA error: no devices supporting CUDA.\<newline>''], Exit (- 1)))
   \<and> (cuInit drv 0 = CUDA_SUCCESS \<and> fst (cuDeviceGetCount drv) \<noteq> CUDA_SUCCESS \<longrightarrow>
         gpuDeviceInitDRV s drv ARGV =
           ([Stderr (checkCudaErrors_text s (fst (cuDeviceGetCount drv)) (FILE_macro s) 53)],
            Exit (- 1)))
   \<and> (cuInit drv 0 = CUDA_SUCCESS \<and> fst (cuDeviceGetCount drv) = CUDA_SUCCESS
        \<and> snd (cuDeviceGetCount drv) \<noteq> 0 \<and> dev \<le> snd (cuDeviceGetCount drv) - 1
        \<and> fst (cuDeviceGet drv dev) \<noteq> CUDA_SUCCESS \<longrightarrow>
         gpuDeviceInitDRV s drv ARGV =
           ([Stderr (checkCudaErrors_text s (fst (cuDeviceGet drv dev)) (FILE_macro s) 68)],
            Exit (- 1)))
   \<and> (fst (cudaGetDeviceCount rt) \<noteq> cudaSuccess \<longrightarrow>
         gpuGLDeviceInit s rt ARGV =
           ([Stderr (cudaErrorText s (fst (cudaGetDeviceCount rt)) 21)], Exit (cudaErrorExit s)))
   \<and> (fst (cudaGetDeviceCount rt) = cudaSuccess
        \<and> snd (cudaGetDeviceCount rt) \<noteq> 0 \<and> dev \<le> snd (cudaGetDeviceCount rt) - 1
        \<and> fst (cudaGetDeviceProperties rt dev) \<noteq> cudaSuccess \<longrightarrow>
         gpuGLDeviceInit s rt ARGV =
           ([Stderr (cudaErrorText s (fst (cudaGetDeviceProperties rt dev)) 38)],
            Exit (cudaErrorExit s)))
   \<and> (fst (cudaGetDeviceCount rt) = cudaSuccess
        \<and> snd (cudaGetDeviceCount rt) \<noteq> 0 \<and> dev \<le> snd (cudaGetDeviceCount rt) - 1
        \<and> fst (cudaGetDeviceProperties rt dev) = cudaSuccess
        \<and> 1 \<le> major (snd (cudaGetDeviceProperties rt dev))
        \<and> cudaGLSetGLDevice rt dev \<noteq> cudaSuccess \<longrightarrow>
         snd (gpuGLDeviceInit s rt ARGV) = Exit (cudaErrorExit s)
         \<and> (\<exists>t. fst (gpuGLDeviceInit s rt ARGV) =
                  t @ [GLSetGLDevice dev, Stderr (cudaErrorText s (cudaGLSetGLDevice rt dev) 46)]))
   \<and> (\<forall>e. gpuDeviceInitDRV s (drv\<lparr>cuDeviceGetName := \<lambda>d. (e, snd (cuDeviceGetName drv d))\<rparr>) ARGV
           = gpuDeviceInitDRV s drv ARGV)
   \<and> (cuInit drv 0 = CUDA_SUCCESS \<and> fst (cuDeviceGetCount drv) = CUDA_SUCCESS
        \<and> 0 < snd (cuDeviceGetCount drv) \<and> snd (cuDeviceGetCount drv) - 1 < dev \<longrightarrow>
         gpuDeviceInitDRV s drv ARGV =
           ([Stderr ''\<newline>'',
             Stderr (''>> '' @ fmt_d (snd (cuDeviceGetCount drv))
                       @ '' CUDA capable GPU device(s) detected. <<\<newline>''),
             Stderr (''>> cudaDeviceInit (-device='' @ fmt_d dev
                       @ '') is not a valid GPU device. <<\<newline>''),
             Stderr ''\<newline>''],
            Return (- dev))
         \<and> - dev < 0)
   \<and> (fst (cudaGetDeviceCount rt) = cudaSuccess
        \<and> 0 < snd (cudaGetDeviceCount rt) \<and> snd (cudaGetDeviceCount rt) - 1 < dev \<longrightarrow>
         gpuGLDeviceInit s rt ARGV =
           ([Stderr ''\<newline>'',
             Stderr (''>> '' @ fmt_d (snd (cudaGetDeviceCount rt))
                       @ '' CUDA capable GPU device(s) detected. <<\<newline>''),
             Stderr (''>> gpuGLDeviceInit (-device='' @ fmt_d dev
                       @ '') is not a valid GPU device. <<\<newline>''),
             Stderr ''\<newline>''],
            Return (- dev))
         \<and> - dev < 0)"
proof -
  note drv_cases = gpuDeviceInitDRV_cases [OF assms]
  note gl_cases = gpuGLDeviceInit_cases [OF assms]
  have a: "\<forall>c. snd (gpuDeviceInitDRV s drv ARGV) = Exit c \<longrightarrow>
         c = - 1 \<and> (\<exists>m. fst (gpuDeviceInitDRV s drv ARGV) = [Stderr m])"
    using gpuDeviceInitDRV_exit by blast
  have b: "\<forall>c. snd (gpuGLDeviceInit s rt ARGV) = Exit c \<longrightarrow>
         (c = - 1 \<or> c = cudaErrorExit s)
         \<and> (\<exists>t m. fst (gpuGLDeviceInit s rt ARGV) = t @ [Stderr m])"
    using gpuGLDeviceInit_exit by blast
  have c: "cuInit drv 0 \<noteq> CUDA_SUCCESS \<or> cuDeviceGetCount drv = (CUDA_SUCCESS, 0) \<longrightarrow>
         gpuDeviceInitDRV s drv ARGV =
           ([Stderr ''cudaDeviceInit error: no devices supporting CUDA\<newline>''], Exit (- 1))"
    by (auto simp: drv_cases no_devices_DRV_def)
  have d: "cudaGetDeviceCount rt = (cudaSuccess, 0) \<longrightarrow>
         gpuGLDeviceInit s rt ARGV =
           ([Stderr ''CUDA error: no devices supporting CUDA.\<newline>''], Exit (- 1))"
    by (simp add: gl_cases no_devices_GL_def)
  have e: "cuInit drv 0 = CUDA_SUCCESS \<and> fst (cuDeviceGetCount drv) \<noteq> CUDA_SUCCESS \<longrightarrow>
         gpuDeviceInitDRV s drv ARGV =
           ([Stderr (checkCudaErrors_text s (fst (cuDeviceGetCount drv)) (FILE_macro s) 53)],
            Exit (- 1))"
    by (simp add: drv_cases)
  have f: "cuInit drv 0 = CUDA_SUCCESS \<and> fst (cuDeviceGetCount drv) = CUDA_SUCCESS
        \<and> snd (cuDeviceGetCount drv) \<noteq> 0 \<and> dev \<le> snd (cuDeviceGetCount drv) - 1
        \<and> fst (cuDeviceGet drv dev) \<noteq> CUDA_SUCCESS \<longrightarrow>
         gpuDeviceInitDRV s drv ARGV =
           ([Stderr (checkCudaErrors_text s (fst (cuDeviceGet drv dev)) (FILE_macro s) 68)],
            Exit (- 1))"
    by (simp add: drv_cases)
  have g: "fst (cudaGetDeviceCount rt) \<noteq> cudaSuccess \<longrightarrow>
         gpuGLDeviceInit s rt ARGV =
           ([Stderr (cudaErrorText s (fst (cudaGetDeviceCount rt)) 21)], Exit (cudaErrorExit s))"
    by (simp add: gl_cases runtime_abort_def)
  have h: "fst (cudaGetDeviceCount rt) = cudaSuccess
        \<and> snd (cudaGetDeviceCount rt) \<noteq> 0 \<and> dev \<le> snd (cudaGetDeviceCount rt) - 1
        \<and> fst (cudaGetDeviceProperties rt dev) \<noteq> cudaSuccess \<longrightarrow>
         gpuGLDeviceInit s rt ARGV =
           ([Stderr (cudaErrorText s (fst (cudaGetDeviceProperties rt dev)) 38)],
            Exit (cudaErrorExit s))"
    by (simp add: gl_cases runtime_abort_def)
  have i: "fst (cudaGetDeviceCount rt) = cudaSuccess
        \<and> snd (cudaGetDeviceCount rt) \<noteq> 0 \<and> dev \<le> snd (cudaGetDeviceCount rt) - 1
        \<and> fst (cudaGetDeviceProperties rt dev) = cudaSuccess
        \<and> 1 \<le> major (snd (cudaGetDeviceProperties rt dev))
        \<and> cudaGLSetGLDevice rt dev \<noteq> cudaSuccess \<longrightarrow>
         snd (gpuGLDeviceInit s rt ARGV) = Exit (cudaErrorExit s)
         \<and> (\<exists>t. fst (gpuGLDeviceInit s rt ARGV) =
                  t @ [GLSetGLDevice dev, Stderr (cudaErrorText s (cudaGLSetGLDevice rt dev) 46)])"
    by (simp add: gl_cases runtime_abort_def)
  have j: "\<forall>e. gpuDeviceInitDRV s (drv\<lparr>cuDeviceGetName := \<lambda>d. (e, snd (cuDeviceGetName drv d))\<rparr>) ARGV
           = gpuDeviceInitDRV s drv ARGV"
    by (simp add: gpuDeviceInitDRV_flat)
  have k: "cuInit drv 0 = CUDA_SUCCESS \<and> fst (cuDeviceGetCount drv) = CUDA_SUCCESS
        \<and> 0 < snd (cuDeviceGetCount drv) \<and> snd (cuDeviceGetCount drv) - 1 < dev \<longrightarrow>
         gpuDeviceInitDRV s drv ARGV =
           ([Stderr ''\<newline>'',
             Stderr (''>> '' @ fmt_d (snd (cuDeviceGetCount drv))
                       @ '' CUDA capable GPU device(s) detected. <<\<newline>''),
             Stderr (''>> cudaDeviceInit (-device='' @ fmt_d dev
                       @ '') is not a valid GPU device. <<\<newline>''),
             Stderr ''\<newline>''],
            Return (- dev))
         \<and> - dev < 0"
    by (simp add: drv_cases rejected_def detected_text_def invalid_device_text_def)
  have l: "fst (cudaGetDeviceCount rt) = cudaSuccess
        \<and> 0 < snd (cudaGetDeviceCount rt) \<and> snd (cudaGetDeviceCount rt) - 1 < dev \<longrightarrow>
         gpuGLDeviceInit s rt ARGV =
           ([Stderr ''\<newline>'',
             Stderr (''>> '' @ fmt_d (snd (cudaGetDeviceCount rt))
                       @ '' CUDA capable GPU device(s) detected. <<\<newline>''),
             Stderr (''>> gpuGLDeviceInit (-device='' @ fmt_d dev
                       @ '') is not a valid GPU device. <<\<newline>''),
             Stderr ''\<newline>''],
            Return (- dev))
         \<and> - dev < 0"
    by (simp add: gl_cases rejected_def detected_text_def invalid_device_text_def)
  show ?thesis
    by (intro conjI) (rule a b c d e f g h i j k l)+
qed

theorem init_failure_modes_witness:
  "(1::int) = max 0 (getCmdLineArgumentInt (sample_gl_sdk 1 [''device'']) [''matrixMul'', ''-device=1''] ''device='')
   \<and> cuInit (sample_driver [(''GT 640'', 3, 0, 2, 900000)]
         \<lparr>cuDeviceGetCount := (0, 2)\<rparr>) 0 = CUDA_SUCCESS
   \<and> fst (cuDeviceGet (sample_driver [(''GT 640'', 3, 0, 2, 900000)]
         \<lparr>cuDeviceGetCount := (0, 2)\<rparr>) 1) \<noteq> CUDA_SUCCESS
   \<and> gpuDeviceInitDRV (sample_gl_sdk 1 [''device''])
        (sample_driver [(''GT 640'', 3, 0, 2, 900000)]\<lparr>cuDeviceGetCount := (0, 2)\<rparr>)
        [''matrixMul'', ''-device=1'']
      = ([Stderr (checkCudaErrors_text (sample_gl_sdk 1 [''device'']) 101 ''cudaGLHelper.h'' 68)],
         Exit (- 1))
   \<and> fst (cudaGetDeviceProperties (sample_runtime [(''GT 640'', 3, 0, 2, 900000)]
         \<lparr>cudaGetDeviceCount := (0, 2)\<rparr>) 1) \<noteq> cudaSuccess
   \<and> gpuGLDeviceInit (sample_gl_sdk 1 [''device''])
        (sample_runtime [(''GT 640'', 3, 0, 2, 900000)]\<lparr>cudaGetDeviceCount := (0, 2)\<rparr>)
        [''matrixMul'', ''-device=1'']
      = ([Stderr ''CUDA error at cudaGLHelper.h\<newline>''], Exit 1)
   \<and> (3::int) = max 0 (getCmdLineArgumentInt (sample_gl_sdk 3 [''device'']) [''matrixMul'', ''-device=3''] ''device='')
   \<and> gpuGLDeviceInit (sample_gl_sdk 3 [''device''])
        (sample_runtime [(''GT 640'', 3, 0, 2, 900000)]) [''matrixMul'', ''-device=3'']
      = ([Stderr ''\<newline>'',
          Stderr ''>> 1 CUDA capable GPU device(s) detected. <<\<newline>'',
          Stderr ''>> gpuGLDeviceInit (-device=3) is not a valid GPU device. <<\<newline>'',
          Stderr ''\<newline>''],
         Return (- 3))"
proof -
  let ?S1 = "sample_gl_sdk 1 [''device'']"
  let ?S3 = "sample_gl_sdk 3 [''device'']"
  let ?D = "sample_driver [(''GT 640'', 3, 0, 2, 900000)]\<lparr>cuDeviceGetCount := (0, 2)\<rparr>"
  let ?R = "sample_runtime [(''GT 640'', 3, 0, 2, 900000)]\<lparr>cudaGetDeviceCount := (0, 2)\<rparr>"
  let ?R1 = "sample_runtime [(''GT 640'', 3, 0, 2, 900000)]"
  have dev1: "(1::int) = max 0 (getCmdLineArgumentInt ?S1 [''matrixMul'', ''-device=1''] ''device='')"
    and dev3: "(3::int) = max 0 (getCmdLineArgumentInt ?S3 [''matrixMul'', ''-device=3''] ''device='')"
    by (simp_all add: sample_gl_sdk_def)
  have d: "cuInit ?D 0 = CUDA_SUCCESS" "fst (cuDeviceGetCount ?D) = CUDA_SUCCESS"
    "snd (cuDeviceGetCount ?D) \<noteq> 0" "1 \<le> snd (cuDeviceGetCount ?D) - 1"
    "fst (cuDeviceGet ?D 1) \<noteq> CUDA_SUCCESS" "fst (cuDeviceGet ?D 1) = 101"
    by (simp_all add: sample_driver_def CUDA_SUCCESS_def)
  have r: "fst (cudaGetDeviceCount ?R) = cudaSuccess"
    "snd (cudaGetDeviceCount ?R) \<noteq> 0" "1 \<le> snd (cudaGetDeviceCount ?R) - 1"
    "fst (cudaGetDeviceProperties ?R 1) \<noteq> cudaSuccess"
    by (simp_all add: sample_runtime_def cudaSuccess_def)
  have r1: "fst (cudaGetDeviceCount ?R1) = cudaSuccess" "snd (cudaGetDeviceCount ?R1) = 1"
    by (simp_all add: sample_runtime_def cudaSuccess_def)
  have s1: "FILE_macro ?S1 = ''cudaGLHelper.h''" "cudaErrorExit ?S1 = 1"
    "cudaErrorText ?S1 (fst (cudaGetDeviceProperties ?R 1)) 38 = ''CUDA error at cudaGLHelper.h\<newline>''"
    by (simp_all add: sample_gl_sdk_def)
  from init_failure_modes [OF dev1, where drv = ?D and rt = ?R] d r
  have a: "gpuDeviceInitDRV ?S1 ?D [''matrixMul'', ''-device=1''] =
           ([Stderr (checkCudaErrors_text ?S1 (fst (cuDeviceGet ?D 1)) (FILE_macro ?S1) 68)],
            Exit (- 1))"
    and b: "gpuGLDeviceInit ?S1 ?R [''matrixMul'', ''-device=1''] =
           ([Stderr (cudaErrorText ?S1 (fst (cudaGetDeviceProperties ?R 1)) 38)],
            Exit (cudaErrorExit ?S1))"
    by blast+
  from init_failure_modes [OF dev3, where drv = ?D and rt = ?R1] r1
  have c: "gpuGLDeviceInit ?S3 ?R1 [''matrixMul'', ''-device=3''] =
           ([Stderr ''\<newline>'',
             Stderr (''>> '' @ fmt_d (snd (cudaGetDeviceCount ?R1))
                       @ '' CUDA capable GPU device(s) detected. <<\<newline>''),
             Stderr (''>> gpuGLDeviceInit (-device='' @ fmt_d 3
                       @ '') is not a valid GPU device. <<\<newline>''),
             Stderr ''\<newline>''],
            Return (- 3))"
    by simp
  have fmt: "fmt_d 1 = ''1''" "fmt_d 3 = ''3''"
    by (simp_all add: fmt_d_def digits.simps)
  from a d(6) s1(1) have a': "gpuDeviceInitDRV ?S1 ?D [''matrixMul'', ''-device=1''] =
      ([Stderr (checkCudaErrors_text ?S1 101 ''cudaGLHelper.h'' 68)], Exit (- 1))"
    by simp
  from b s1 have b': "gpuGLDeviceInit ?S1 ?R [''matrixMul'', ''-device=1''] =
      ([Stderr ''CUDA error at cudaGLHelper.h\<newline>''], Exit 1)"
    by simp
  from c r1(2) fmt have c': "gpuGLDeviceInit ?S3 ?R1 [''matrixMul'', ''-device=3''] =
      ([Stderr ''\<newline>'',
        Stderr ''>> 1 CUDA capable GPU device(s) detected. <<\<newline>'',
        Stderr ''>> gpuGLDeviceInit (-device=3) is not a valid GPU device. <<\<newline>'',
        Stderr ''\<newline>''],
       Return (- 3))"
    by simp
  from dev1 dev3 d(1,5) r(4) a' b' c' show ?thesis
    by (intro conjI)
qed

subsection \<open>The quiet flag and the line of the device in use\<close>












end
